theory Spec2Isabelle
  imports Complex_Main "HOL-Library.Monad_Syntax"
begin

section \<open>Conventions of the embedding\<close>

text \<open>
  The program is Python. Its coordinates are Python numbers (the integers of pointer events,
  and floats wherever a midpoint, a distance or an intersection is computed); they are
  embedded as \<^typ>\<open>real\<close>, so \<open>math.sqrt\<close> is \<^term>\<open>sqrt\<close> and the tolerances
  \<open>0.1\<close> are \<open>1/10\<close>. Rounding of floats is outside the embedding: a definition
  agrees with the program where the intermediate values of the computation are floats
  without rounding (integers and their halves in the range of the screen, square roots
  that are integers), or are rounded only on the way to a comparison that rounding cannot
  turn (a distance \<open>sqrt 8\<close> against the threshold 10); the theorems on concrete inputs
  evaluate the definitions there. Where a rounded value is compared with \<open>==\<close>, or sits
  on the edge of a domain, the program may take another branch than the definition, or
  raise where the definition returns; this concerns \<open>get_circle_circle_intersection\<close>
  and is said there.

  Objects are mutable and shared by reference (a shape is in the shape list, in the
  selection and in undo entries at once), so objects live in a store indexed by their
  identity, and lists hold identities. Python's \<open>in\<close>, \<open>list.remove\<close> and
  \<open>list.index\<close> compare with \<open>==\<close>, which is identity for the shape and annotation
  classes (they define no \<open>__eq__\<close>).

  A raised exception is the value \<^term>\<open>None\<close> of an option type: a function of the
  program that can raise returns an option, and the state reached before the exception is
  not kept. The render surface (the tkinter canvas items the \<open>draw\<close> methods create,
  focus, logging) is outside the embedding, so \<open>redraw\<close> and the preview have no effect
  on the state modelled here. Handlers take the pointer position \<open>event.x\<close>, \<open>event.y\<close>
  in place of the event object.
\<close>

type_synonym ref = nat

section \<open>annotations.py\<close>

subsection \<open>Point and BoundingBox\<close>

record Point =
  p_x :: real
  p_y :: real

definition Point_add :: "Point \<Rightarrow> Point \<Rightarrow> Point" where
  "Point_add self other = \<lparr>p_x = p_x self + p_x other, p_y = p_y self + p_y other\<rparr>"

definition Point_sub :: "Point \<Rightarrow> Point \<Rightarrow> Point" where
  "Point_sub self other = \<lparr>p_x = p_x self - p_x other, p_y = p_y self - p_y other\<rparr>"

definition distance_to :: "Point \<Rightarrow> Point \<Rightarrow> real" where
  "distance_to self other =
     sqrt ((p_x self - p_x other)\<^sup>2 + (p_y self - p_y other)\<^sup>2)"

record BoundingBox =
  min_point :: Point
  max_point :: Point

text \<open>\<open>BoundingBox.contains_point(point, threshold)\<close>; Python's three-argument
  \<open>max(a, 0, b)\<close> is written with two nested \<^term>\<open>max\<close>.\<close>

definition contains_point :: "BoundingBox \<Rightarrow> Point \<Rightarrow> real \<Rightarrow> bool" where
  "contains_point self point threshold =
     (if p_x (min_point self) \<le> p_x point \<and> p_x point \<le> p_x (max_point self) \<and>
         p_y (min_point self) \<le> p_y point \<and> p_y point \<le> p_y (max_point self)
      then True
      else
        (let dx = max (max (p_x (min_point self) - p_x point) 0) (p_x point - p_x (max_point self));
             dy = max (max (p_y (min_point self) - p_y point) 0) (p_y point - p_y (max_point self));
             distance = sqrt (dx * dx + dy * dy)
         in distance \<le> threshold))"

subsection \<open>Annotation objects\<close>

text \<open>
  \<open>Point\<close> objects are mutable and an annotation keeps the very objects it was given, so
  points live in a store and an annotation holds their identities: two annotations (or the
  two ends of one line) may share a point. The fields that only one subclass has are the
  arguments of its constructor below.
\<close>

datatype annotation_fields =
    LineAnnotation (a_start: ref) (a_end: ref) (is_horizontal: bool)
  | RectangleAnnotation (a_start: ref) (a_end: ref)
  | TextAnnotation (a_position: ref) (a_text: string) (font_size: int)
      (text_width: real) (text_height: real)

record Annotation =
  an_color :: string
  an_width :: int
  an_id :: "int option"
  is_selected :: bool
  highlight_id :: "int option"
  an_fields :: annotation_fields

definition annotation_type :: "Annotation \<Rightarrow> string" where
  "annotation_type an =
     (case an_fields an of
        LineAnnotation _ _ _ \<Rightarrow> ''line''
      | RectangleAnnotation _ _ \<Rightarrow> ''rectangle''
      | TextAnnotation _ _ _ _ _ \<Rightarrow> ''text'')"

text \<open>The memory of the PDF overlay and its single \<open>AnnotationManager\<close>.\<close>

record annotation_state =
  point_heap :: "ref \<Rightarrow> Point"
  ann_heap :: "ref \<Rightarrow> Annotation"
  annotations :: "ref list"
  selected_annotations :: "ref list"

text \<open>The constructors: the object they build, given the point store they read.\<close>

definition LineAnnotation_init ::
  "(ref \<Rightarrow> Point) \<Rightarrow> ref \<Rightarrow> ref \<Rightarrow> string \<Rightarrow> int \<Rightarrow> Annotation" where
  "LineAnnotation_init ph start end_pt color width =
     \<lparr>an_color = color, an_width = width, an_id = None, is_selected = False,
      highlight_id = None,
      an_fields = LineAnnotation start end_pt (\<bar>p_y (ph start) - p_y (ph end_pt)\<bar> < 2)\<rparr>"

definition RectangleAnnotation_init :: "ref \<Rightarrow> ref \<Rightarrow> string \<Rightarrow> int \<Rightarrow> Annotation" where
  "RectangleAnnotation_init start end_pt color width =
     \<lparr>an_color = color, an_width = width, an_id = None, is_selected = False,
      highlight_id = None, an_fields = RectangleAnnotation start end_pt\<rparr>"

definition TextAnnotation_init :: "ref \<Rightarrow> string \<Rightarrow> string \<Rightarrow> int \<Rightarrow> Annotation" where
  "TextAnnotation_init pos txt color fsize =
     \<lparr>an_color = color, an_width = 1, an_id = None, is_selected = False,
      highlight_id = None, an_fields = TextAnnotation pos txt fsize 0 0\<rparr>"

text \<open>\<open>p.x += d\<close> and \<open>p.y += d\<close> on the point object \<open>p\<close>.\<close>

definition add_x :: "ref \<Rightarrow> real \<Rightarrow> (ref \<Rightarrow> Point) \<Rightarrow> (ref \<Rightarrow> Point)" where
  "add_x p d h = h(p := (h p)\<lparr>p_x := p_x (h p) + d\<rparr>)"

definition add_y :: "ref \<Rightarrow> real \<Rightarrow> (ref \<Rightarrow> Point) \<Rightarrow> (ref \<Rightarrow> Point)" where
  "add_y p d h = h(p := (h p)\<lparr>p_y := p_y (h p) + d\<rparr>)"

text \<open>\<open>move(dx, dy)\<close> of the three subclasses, statement by statement.\<close>

definition move :: "annotation_state \<Rightarrow> ref \<Rightarrow> real \<Rightarrow> real \<Rightarrow> annotation_state" where
  "move st a dx dy =
     (case an_fields (ann_heap st a) of
        LineAnnotation s e hor \<Rightarrow>
          (if hor then
             (let h1 = add_x s dx (point_heap st);
                  h2 = add_x e dx h1;
                  h3 = add_y s dy h2;
                  h4 = h3(e := (h3 e)\<lparr>p_y := p_y (h3 s)\<rparr>)
              in st\<lparr>point_heap := h4\<rparr>)
           else
             (let h1 = add_x s dx (point_heap st);
                  h2 = add_y s dy h1;
                  h3 = add_x e dx h2;
                  h4 = add_y e dy h3
              in st\<lparr>point_heap := h4\<rparr>))
      | RectangleAnnotation s e \<Rightarrow>
          (let h1 = add_x s dx (point_heap st);
               h2 = add_y s dy h1;
               h3 = add_x e dx h2;
               h4 = add_y e dy h3
           in st\<lparr>point_heap := h4\<rparr>)
      | TextAnnotation p _ _ _ _ \<Rightarrow>
          (let h1 = add_x p dx (point_heap st);
               h2 = add_y p dy h1
           in st\<lparr>point_heap := h2\<rparr>))"

definition get_bounding_box :: "annotation_state \<Rightarrow> ref \<Rightarrow> BoundingBox" where
  "get_bounding_box st a =
     (case an_fields (ann_heap st a) of
        LineAnnotation s e _ \<Rightarrow>
          (let ps = point_heap st s; pe = point_heap st e in
           \<lparr>min_point = \<lparr>p_x = min (p_x ps) (p_x pe), p_y = min (p_y ps) (p_y pe)\<rparr>,
            max_point = \<lparr>p_x = max (p_x ps) (p_x pe), p_y = max (p_y ps) (p_y pe)\<rparr>\<rparr>)
      | RectangleAnnotation s e \<Rightarrow>
          (let ps = point_heap st s; pe = point_heap st e in
           \<lparr>min_point = \<lparr>p_x = min (p_x ps) (p_x pe), p_y = min (p_y ps) (p_y pe)\<rparr>,
            max_point = \<lparr>p_x = max (p_x ps) (p_x pe), p_y = max (p_y ps) (p_y pe)\<rparr>\<rparr>)
      | TextAnnotation p _ _ tw th \<Rightarrow>
          (let pp = point_heap st p in
           \<lparr>min_point = \<lparr>p_x = p_x pp, p_y = p_y pp\<rparr>,
            max_point = \<lparr>p_x = p_x pp + tw, p_y = p_y pp + th\<rparr>\<rparr>))"

definition get_coords :: "annotation_state \<Rightarrow> ref \<Rightarrow> real list" where
  "get_coords st a =
     (case an_fields (ann_heap st a) of
        LineAnnotation s e _ \<Rightarrow>
          [p_x (point_heap st s), p_y (point_heap st s), p_x (point_heap st e), p_y (point_heap st e)]
      | RectangleAnnotation s e \<Rightarrow>
          [p_x (point_heap st s), p_y (point_heap st s), p_x (point_heap st e), p_y (point_heap st e)]
      | TextAnnotation p _ _ tw th \<Rightarrow>
          [p_x (point_heap st p), p_y (point_heap st p),
           p_x (point_heap st p) + tw, p_y (point_heap st p) + th])"

text \<open>\<open>contains_point(point, threshold)\<close> of the three subclasses. In the line case the
  division is by \<open>l2 > 0\<close>: the degenerate segment has returned before.\<close>

definition annotation_contains_point ::
  "annotation_state \<Rightarrow> ref \<Rightarrow> Point \<Rightarrow> real \<Rightarrow> bool" where
  "annotation_contains_point st a point threshold =
     (case an_fields (ann_heap st a) of
        LineAnnotation s e _ \<Rightarrow>
          (let ps = point_heap st s; pe = point_heap st e in
           if distance_to ps pe < 1/10 then distance_to ps point < threshold
           else
             (let dx = p_x pe - p_x ps;
                  dy = p_y pe - p_y ps;
                  l2 = dx * dx + dy * dy;
                  t = max 0 (min 1 (((p_x point - p_x ps) * dx + (p_y point - p_y ps) * dy) / l2));
                  proj_x = p_x ps + t * dx;
                  proj_y = p_y ps + t * dy;
                  dist = sqrt ((p_x point - proj_x)\<^sup>2 + (p_y point - proj_y)\<^sup>2)
              in dist < threshold))
      | RectangleAnnotation _ _ \<Rightarrow> contains_point (get_bounding_box st a) point threshold
      | TextAnnotation _ _ _ _ _ \<Rightarrow> contains_point (get_bounding_box st a) point threshold)"

subsection \<open>AnnotationManager\<close>

definition AnnotationManager_init ::
  "(ref \<Rightarrow> Point) \<Rightarrow> (ref \<Rightarrow> Annotation) \<Rightarrow> annotation_state" where
  "AnnotationManager_init ph ah =
     \<lparr>point_heap = ph, ann_heap = ah, annotations = [], selected_annotations = []\<rparr>"

definition set_is_selected :: "ref \<Rightarrow> bool \<Rightarrow> (ref \<Rightarrow> Annotation) \<Rightarrow> (ref \<Rightarrow> Annotation)" where
  "set_is_selected a b h = h(a := (h a)\<lparr>is_selected := b\<rparr>)"

definition add_annotation :: "annotation_state \<Rightarrow> ref \<Rightarrow> annotation_state" where
  "add_annotation st a = st\<lparr>annotations := annotations st @ [a]\<rparr>"

text \<open>\<open>list.remove\<close> deletes the first occurrence: \<^term>\<open>remove1\<close>.\<close>

definition remove_annotation :: "annotation_state \<Rightarrow> ref \<Rightarrow> annotation_state" where
  "remove_annotation st a =
     (if a \<in> set (annotations st) then
        (let st1 = st\<lparr>annotations := remove1 a (annotations st)\<rparr> in
         if a \<in> set (selected_annotations st1)
         then st1\<lparr>selected_annotations := remove1 a (selected_annotations st1)\<rparr>
         else st1)
      else st)"

definition clear_selection :: "annotation_state \<Rightarrow> annotation_state" where
  "clear_selection st =
     st\<lparr>ann_heap := fold (\<lambda>a h. set_is_selected a False h) (selected_annotations st) (ann_heap st),
        selected_annotations := []\<rparr>"

text \<open>The search loop of \<open>select_annotation\<close> over \<open>reversed(self.annotations)\<close>. Its two
  variables are \<open>target_annotation\<close> and \<open>min_distance\<close>; \<^term>\<open>None\<close> as
  \<open>min_distance\<close> is \<open>float('inf')\<close>. Returning at once is the \<open>break\<close>.\<close>

fun find_target ::
  "annotation_state \<Rightarrow> Point \<Rightarrow> ref list \<Rightarrow> ref option \<Rightarrow> real option \<Rightarrow> ref option" where
  "find_target st point [] target min_distance = target"
| "find_target st point (a # rest) target min_distance =
     (if annotation_contains_point st a point 5 then
        (if a \<in> set (selected_annotations st) then Some a
         else
           (let bbox = get_bounding_box st a;
                dist = min (distance_to point \<lparr>p_x = p_x (min_point bbox), p_y = p_y (min_point bbox)\<rparr>)
                           (distance_to point \<lparr>p_x = p_x (max_point bbox), p_y = p_y (max_point bbox)\<rparr>)
            in if (case min_distance of None \<Rightarrow> True | Some m \<Rightarrow> dist < m)
               then find_target st point rest (Some a) (Some dist)
               else find_target st point rest target min_distance))
      else find_target st point rest target min_distance)"

definition select_annotation ::
  "annotation_state \<Rightarrow> Point \<Rightarrow> bool \<Rightarrow> annotation_state \<times> ref option" where
  "select_annotation st point ctrl_pressed =
     (case find_target st point (rev (annotations st)) None None of
        None \<Rightarrow> ((if \<not> ctrl_pressed then clear_selection st else st), None)
      | Some t \<Rightarrow>
          (if ctrl_pressed then
             (if t \<in> set (selected_annotations st)
              then (st\<lparr>selected_annotations := remove1 t (selected_annotations st),
                       ann_heap := set_is_selected t False (ann_heap st)\<rparr>, Some t)
              else (st\<lparr>selected_annotations := selected_annotations st @ [t],
                       ann_heap := set_is_selected t True (ann_heap st)\<rparr>, Some t))
           else
             (let st1 = clear_selection st in
              (st1\<lparr>selected_annotations := selected_annotations st1 @ [t],
                   ann_heap := set_is_selected t True (ann_heap st1)\<rparr>, Some t))))"

text \<open>The inner loop of \<open>select_multiple\<close> for one point: the first annotation, in reverse
  order, that contains the point and is not selected yet is selected, then \<open>break\<close>.\<close>

fun select_first :: "annotation_state \<Rightarrow> Point \<Rightarrow> ref list \<Rightarrow> annotation_state" where
  "select_first st point [] = st"
| "select_first st point (a # rest) =
     (if annotation_contains_point st a point 5 \<and> a \<notin> set (selected_annotations st)
      then st\<lparr>selected_annotations := selected_annotations st @ [a],
              ann_heap := set_is_selected a True (ann_heap st)\<rparr>
      else select_first st point rest)"

definition select_multiple :: "annotation_state \<Rightarrow> Point list \<Rightarrow> bool \<Rightarrow> annotation_state" where
  "select_multiple st pts ctrl_pressed =
     fold (\<lambda>point s. select_first s point (rev (annotations s))) pts
       (if \<not> ctrl_pressed then clear_selection st else st)"

definition move_selected :: "annotation_state \<Rightarrow> real \<Rightarrow> real \<Rightarrow> annotation_state" where
  "move_selected st dx dy = fold (\<lambda>a s. move s a dx dy) (selected_annotations st) st"

text \<open>The calls a client can make on the overlay, for statements about every sequence of
  them.\<close>

datatype annotation_op =
    Move ref real real
  | MoveSelected real real
  | AddAnnotation ref
  | RemoveAnnotation ref
  | SelectAnnotation Point bool
  | SelectMultiple "Point list" bool
  | ClearSelection

fun run_op :: "annotation_op \<Rightarrow> annotation_state \<Rightarrow> annotation_state" where
  "run_op (Move a dx dy) st = move st a dx dy"
| "run_op (MoveSelected dx dy) st = move_selected st dx dy"
| "run_op (AddAnnotation a) st = add_annotation st a"
| "run_op (RemoveAnnotation a) st = remove_annotation st a"
| "run_op (SelectAnnotation p c) st = fst (select_annotation st p c)"
| "run_op (SelectMultiple ps c) st = select_multiple st ps c"
| "run_op ClearSelection st = clear_selection st"

definition run_ops :: "annotation_op list \<Rightarrow> annotation_state \<Rightarrow> annotation_state" where
  "run_ops ops st = fold run_op ops st"

text \<open>The selection flag of every annotation in the collection agrees with membership in
  the selected list, and that list has no duplicates.\<close>

definition selection_synced :: "annotation_state \<Rightarrow> bool" where
  "selection_synced st \<longleftrightarrow>
     (\<forall>a \<in> set (annotations st).
        is_selected (ann_heap st a) = (a \<in> set (selected_annotations st))) \<and>
     distinct (selected_annotations st)"

section \<open>drawing_canvas.py\<close>

subsection \<open>Shapes\<close>

text \<open>
  A point of a shape is a Python tuple \<open>(x, y)\<close>. A shape object gets its attributes from
  the constructor of its class, and Python creates an attribute on assignment: an
  attribute is \<^term>\<open>None\<close> while the object does not have it, reading it then raises
  \<open>AttributeError\<close>, and assigning it makes it \<^term>\<open>Some\<close> value. No statement of the
  program deletes an attribute.
\<close>

type_synonym point = "real \<times> real"

type_synonym dash = "int list option"

datatype shape_class = Line | Rectangle | Circle | Polygon

record shape =
  s_class :: shape_class
  s_color :: string
  s_width :: int
  s_style :: dash
  s_points :: "point list"
  s_x1 :: "real option"
  s_y1 :: "real option"
  s_x2 :: "real option"
  s_y2 :: "real option"
  s_center_x :: "real option"
  s_center_y :: "real option"
  s_radius :: "real option"
  s_is_selected :: "bool option"

definition Shape_init :: "shape_class \<Rightarrow> string \<Rightarrow> int \<Rightarrow> dash \<Rightarrow> shape" where
  "Shape_init cls color width style =
     \<lparr>s_class = cls, s_color = color, s_width = width, s_style = style, s_points = [],
      s_x1 = None, s_y1 = None, s_x2 = None, s_y2 = None,
      s_center_x = None, s_center_y = None, s_radius = None, s_is_selected = None\<rparr>"

definition Line_init :: "real \<Rightarrow> real \<Rightarrow> real \<Rightarrow> real \<Rightarrow> string \<Rightarrow> int \<Rightarrow> dash \<Rightarrow> shape" where
  "Line_init x1 y1 x2 y2 color width style =
     (Shape_init Line color width style)
       \<lparr>s_x1 := Some x1, s_y1 := Some y1, s_x2 := Some x2, s_y2 := Some y2,
        s_points := [(x1, y1), (x2, y2)]\<rparr>"

definition Rectangle_init :: "real \<Rightarrow> real \<Rightarrow> real \<Rightarrow> real \<Rightarrow> string \<Rightarrow> int \<Rightarrow> dash \<Rightarrow> shape" where
  "Rectangle_init x1 y1 x2 y2 color width style =
     (Shape_init Rectangle color width style)
       \<lparr>s_x1 := Some (min x1 x2), s_y1 := Some (min y1 y2),
        s_x2 := Some (max x1 x2), s_y2 := Some (max y1 y2),
        s_points := [(min x1 x2, min y1 y2), (max x1 x2, min y1 y2),
                     (max x1 x2, max y1 y2), (min x1 x2, max y1 y2)]\<rparr>"

definition Circle_init :: "real \<Rightarrow> real \<Rightarrow> real \<Rightarrow> real \<Rightarrow> string \<Rightarrow> int \<Rightarrow> dash \<Rightarrow> shape" where
  "Circle_init center_x center_y x2 y2 color width style =
     (Shape_init Circle color width style)
       \<lparr>s_center_x := Some center_x, s_center_y := Some center_y,
        s_x2 := Some x2, s_y2 := Some y2,
        s_radius := Some (sqrt ((x2 - center_x)\<^sup>2 + (y2 - center_y)\<^sup>2)),
        s_points := [(center_x, center_y), (x2, y2)]\<rparr>"

definition Polygon_init :: "point list \<Rightarrow> string \<Rightarrow> int \<Rightarrow> dash \<Rightarrow> shape" where
  "Polygon_init pts color width style = (Shape_init Polygon color width style)\<lparr>s_points := pts\<rparr>"

subsection \<open>Geometry kernel\<close>

text \<open>A loop that extends one result list with the list computed for each element, and
  stops at the first exception.\<close>

fun collect :: "('a \<Rightarrow> 'b list option) \<Rightarrow> 'a list \<Rightarrow> 'b list option" where
  "collect f [] = Some []"
| "collect f (v # vs) = do { ys \<leftarrow> f v; zs \<leftarrow> collect f vs; Some (ys @ zs) }"

definition get_line_line_intersection :: "point \<times> point \<Rightarrow> point \<times> point \<Rightarrow> point list" where
  "get_line_line_intersection line1 line2 =
     (case (line1, line2) of (((x1, y1), (x2, y2)), ((x3, y3), (x4, y4))) \<Rightarrow>
        (let denominator = (x1 - x2) * (y3 - y4) - (y1 - y2) * (x3 - x4) in
         if denominator = 0 then []
         else
           (let t = ((x1 - x3) * (y3 - y4) - (y1 - y3) * (x3 - x4)) / denominator;
                u = - ((x1 - x2) * (y1 - y3) - (y1 - y2) * (x1 - x3)) / denominator
            in if 0 \<le> t \<and> t \<le> 1 \<and> 0 \<le> u \<and> u \<le> 1
               then [(x1 + t * (x2 - x1), y1 + t * (y2 - y1))]
               else [])))"

text \<open>\<open>get_circle_line_intersection(line, circle)\<close>: the line is a fresh \<open>Line\<close> object
  built from two points, given here by its four coordinates; the circle by its centre and
  radius.\<close>

definition get_circle_line_intersection ::
  "real \<Rightarrow> real \<Rightarrow> real \<Rightarrow> real \<Rightarrow> real \<Rightarrow> real \<Rightarrow> real \<Rightarrow> point list" where
  "get_circle_line_intersection x1 y1 x2 y2 cx cy r =
     (if x2 - x1 = 0 then
        (let x = x1;
             a = 1;
             b = - 2 * cy;
             c = cy * cy + (x - cx) * (x - cx) - r * r;
             D = b * b - 4 * a * c
         in if D < - (1/10) then []
            else if \<bar>D\<bar> \<le> 1/10 then
              (let y = - b / (2 * a) in
               if min y1 y2 \<le> y \<and> y \<le> max y1 y2 then [(x, y)] else [])
            else
              (let y1_int = (- b + sqrt D) / (2 * a);
                   y2_int = (- b - sqrt D) / (2 * a)
               in (if min y1 y2 \<le> y1_int \<and> y1_int \<le> max y1 y2 then [(x, y1_int)] else []) @
                  (if min y1 y2 \<le> y2_int \<and> y2_int \<le> max y1 y2 then [(x, y2_int)] else [])))
      else if y2 - y1 = 0 then
        (let y = y1;
             a = 1;
             b = - 2 * cx;
             c = cx * cx + (y - cy) * (y - cy) - r * r;
             D = b * b - 4 * a * c
         in if D < - (1/10) then []
            else if \<bar>D\<bar> \<le> 1/10 then
              (let x = - b / (2 * a) in
               if min x1 x2 \<le> x \<and> x \<le> max x1 x2 then [(x, y)] else [])
            else
              (let x1_int = (- b + sqrt D) / (2 * a);
                   x2_int = (- b - sqrt D) / (2 * a)
               in (if min x1 x2 \<le> x1_int \<and> x1_int \<le> max x1 x2 then [(x1_int, y)] else []) @
                  (if min x1 x2 \<le> x2_int \<and> x2_int \<le> max x1 x2 then [(x2_int, y)] else [])))
      else
        (let m = (y2 - y1) / (x2 - x1);
             b = y1 - m * x1;
             A = 1 + m * m;
             B = 2 * (m * (b - cy) - cx);
             C = cx * cx + (b - cy) * (b - cy) - r * r;
             D = B * B - 4 * A * C
         in if D < - (1/10) then []
            else if \<bar>D\<bar> \<le> 1/10 then
              (let x = - B / (2 * A); y = m * x + b in
               if min x1 x2 \<le> x \<and> x \<le> max x1 x2 \<and> min y1 y2 \<le> y \<and> y \<le> max y1 y2
               then [(x, y)] else [])
            else
              (let x1_int = (- B + sqrt D) / (2 * A);
                   x2_int = (- B - sqrt D) / (2 * A)
               in concat (map (\<lambda>x. let y = m * x + b in
                                 if min x1 x2 \<le> x \<and> x \<le> max x1 x2 \<and> min y1 y2 \<le> y \<and> y \<le> max y1 y2
                                 then [(x, y)] else [])
                           [x1_int, x2_int]))))"

text \<open>\<open>math.atan2(y, x)\<close>, by the quadrant of \<open>(x, y)\<close>.\<close>

definition atan2 :: "real \<Rightarrow> real \<Rightarrow> real" where
  "atan2 y x =
     (if 0 < x then arctan (y / x)
      else if x < 0 \<and> 0 \<le> y then arctan (y / x) + pi
      else if x < 0 \<and> y < 0 then arctan (y / x) - pi
      else if 0 < y then pi / 2
      else if y < 0 then - (pi / 2)
      else 0)"

text \<open>\<open>get_circle_circle_intersection(circle1, circle2)\<close>. A division by zero and
  \<open>math.acos\<close> outside \<open>[-1, 1]\<close> raise.

  The definition is the computation in exact arithmetic. There the tests \<open>d == r1 + r2\<close>
  and \<open>d == abs(r1 - r2)\<close> are exact, and past them the argument of \<open>math.acos\<close> lies
  in \<open>[-1, 1]\<close>, so the last branch never raises. The program compares rounded floats:
  for circles that touch, or nearly touch, \<open>d\<close> and \<open>r1 + r2\<close> may differ in the last
  bit, the program then takes the last branch and either returns two points for one or
  computes an argument such as \<open>1.0000000000000002\<close>, on which \<open>math.acos\<close> raises
  \<open>ValueError\<close>. The definition therefore stands for the program only on inputs
  where \<open>d\<close>, the radii and the quotient are floats without rounding; no theorem below
  uses it elsewhere as a statement about what the program returns.\<close>

definition get_circle_circle_intersection :: "shape \<Rightarrow> shape \<Rightarrow> point list option" where
  "get_circle_circle_intersection circle1 circle2 =
     do {
       x1 \<leftarrow> s_center_x circle1; y1 \<leftarrow> s_center_y circle1;
       r1 \<leftarrow> s_radius circle1;
       x2 \<leftarrow> s_center_x circle2; y2 \<leftarrow> s_center_y circle2;
       r2 \<leftarrow> s_radius circle2;
       let d = sqrt ((x2 - x1)\<^sup>2 + (y2 - y1)\<^sup>2);
       if r1 + r2 < d then Some []
       else if d < \<bar>r1 - r2\<bar> then Some []
       else if d = 0 \<and> r1 = r2 then Some []
       else if d = r1 + r2 \<or> d = \<bar>r1 - r2\<bar> then
         (if d = 0 then None
          else
            (let t = r1 / d;
                 x = x1 + t * (x2 - x1);
                 y = y1 + t * (y2 - y1)
             in Some [(x, y)]))
       else
         (if 2 * r1 * d = 0 then None
          else
            (let v = (r1 * r1 + d * d - r2 * r2) / (2 * r1 * d) in
             if v < - 1 \<or> 1 < v then None
             else
               (let a = arccos v;
                    base_angle = atan2 (y2 - y1) (x2 - x1);
                    x3 = x1 + r1 * cos (base_angle + a);
                    y3 = y1 + r1 * sin (base_angle + a);
                    x4 = x1 + r1 * cos (base_angle - a);
                    y4 = y1 + r1 * sin (base_angle - a)
                in Some [(x3, y3), (x4, y4)])))
     }"

text \<open>\<open>get_shape_lines(shape)\<close> reads \<open>shape.points\<close>; an index beyond the list raises
  \<open>IndexError\<close>.\<close>

definition get_shape_lines :: "shape \<Rightarrow> (point \<times> point) list option" where
  "get_shape_lines sh =
     (let pts = s_points sh in
      case s_class sh of
        Line \<Rightarrow> (if 2 \<le> length pts then Some [(pts ! 0, pts ! 1)] else None)
      | Rectangle \<Rightarrow>
          (if 4 \<le> length pts
           then Some (map (\<lambda>i. (pts ! i, pts ! ((i + 1) mod 4))) [0..<4])
           else None)
      | Polygon \<Rightarrow> Some (map (\<lambda>i. (pts ! i, pts ! ((i + 1) mod length pts))) [0..<length pts])
      | Circle \<Rightarrow> Some [])"

definition circle_with_lines :: "shape \<Rightarrow> shape \<Rightarrow> point list option" where
  \<comment> \<open>the first branch of \<open>get_intersection_points\<close>: a circle and a shape made of segments\<close>
  "circle_with_lines circle sh =
     do {
       lines \<leftarrow> get_shape_lines sh;
       collect (\<lambda>line. do {
           cx \<leftarrow> s_center_x circle; cy \<leftarrow> s_center_y circle;
           r \<leftarrow> s_radius circle;
           Some (get_circle_line_intersection (fst (fst line)) (snd (fst line))
                   (fst (snd line)) (snd (snd line)) cx cy r)
         }) lines
     }"

definition get_intersection_points :: "shape \<Rightarrow> shape \<Rightarrow> point list option" where
  "get_intersection_points shape1 shape2 =
     (if s_class shape1 = Circle \<and> s_class shape2 \<in> {Line, Rectangle, Polygon}
      then circle_with_lines shape1 shape2
      else if s_class shape1 \<in> {Line, Rectangle, Polygon} \<and> s_class shape2 = Circle
      then circle_with_lines shape2 shape1
      else if s_class shape1 = Circle \<and> s_class shape2 = Circle
      then get_circle_circle_intersection shape1 shape2
      else
        do {
          lines1 \<leftarrow> get_shape_lines shape1;
          lines2 \<leftarrow> get_shape_lines shape2;
          Some (concat (map (\<lambda>line1. concat (map (\<lambda>line2.
                  get_line_line_intersection line1 line2) lines2)) lines1))
        })"

definition distance_to_line :: "point \<Rightarrow> point \<Rightarrow> point \<Rightarrow> real" where
  "distance_to_line pt line_start line_end =
     (case (pt, line_start, line_end) of ((x, y), (x1, y1), (x2, y2)) \<Rightarrow>
        (let l2 = (x2 - x1)\<^sup>2 + (y2 - y1)\<^sup>2 in
         if l2 = 0 then sqrt ((x - x1)\<^sup>2 + (y - y1)\<^sup>2)
         else
           (let t = max 0 (min 1 (((x - x1) * (x2 - x1) + (y - y1) * (y2 - y1)) / l2));
                px = x1 + t * (x2 - x1);
                py = y1 + t * (y2 - y1)
            in sqrt ((x - px)\<^sup>2 + (y - py)\<^sup>2))))"

subsection \<open>The canvas and its undo entries\<close>

text \<open>
  An undo entry is a dict with a \<open>"type"\<close> and the values that type needs. The positions of
  a move or resize entry are dicts with the keys \<open>x1\<close>, \<open>y1\<close>, \<open>x2\<close>, \<open>y2\<close>. The values of a
  property change are those the three setters record: a colour name, a width or a dash
  pattern.
\<close>

record position =
  pos_x1 :: real
  pos_y1 :: real
  pos_x2 :: real
  pos_y2 :: real

datatype property_value = StrValue string | IntValue int | StyleValue dash

datatype operation =
    Op_add_shape ref
  | Op_delete_shape ref
  | Op_delete_shapes "ref list" "nat list"
  | Op_move_shape ref position position
  | Op_resize_shape ref position position
  | Op_change_property string property_value property_value

text \<open>The \<open>DrawingCanvas\<close> object together with the store of the shape objects it
  refers to. The dict \<open>snap_types\<close> is its three entries. The two stacks are Python lists:
  \<open>append\<close> and \<open>pop\<close> work at the end.\<close>

record canvas =
  heap :: "ref \<Rightarrow> shape"
  next_ref :: ref
  shapes :: "ref list"
  current_points :: "point list"
  mode :: string
  current_color :: string
  current_width :: int
  current_style :: dash
  selected_shapes :: "ref list"
  selected_endpoint :: "nat option"
  is_moving :: bool
  is_resizing :: bool
  resize_handle :: "string option"
  last_x :: "real option"
  last_y :: "real option"
  undo_stack :: "operation list"
  redo_stack :: "operation list"
  snap_enabled :: bool
  snap_distance :: real
  snap_endpoint :: bool
  snap_midpoint :: bool
  snap_intersection :: bool

definition MIN_SIZE :: real where
  "MIN_SIZE = 10"

definition DrawingCanvas_init :: canvas where
  "DrawingCanvas_init =
     \<lparr>heap = (\<lambda>_. Shape_init Polygon ''black'' 1 None), next_ref = 0,
      shapes = [], current_points = [], mode = ''line'',
      current_color = ''black'', current_width = 1, current_style = None,
      selected_shapes = [], selected_endpoint = None,
      is_moving = False, is_resizing = False, resize_handle = None,
      last_x = None, last_y = None,
      undo_stack = [], redo_stack = [],
      snap_enabled = True, snap_distance = 10,
      snap_endpoint = True, snap_midpoint = True, snap_intersection = True\<rparr>"

text \<open>Creating an object: a fresh identity in the store.\<close>

definition new_object :: "canvas \<Rightarrow> shape \<Rightarrow> canvas \<times> ref" where
  "new_object c sh = (c\<lparr>heap := (heap c)(next_ref c := sh), next_ref := Suc (next_ref c)\<rparr>, next_ref c)"

text \<open>A \<open>for shape in refs\<close> loop whose body rewrites the object and may raise.\<close>

fun update_each :: "(shape \<Rightarrow> shape option) \<Rightarrow> ref list \<Rightarrow> (ref \<Rightarrow> shape) \<Rightarrow> (ref \<Rightarrow> shape) option" where
  "update_each f [] h = Some h"
| "update_each f (r # rs) h = (case f (h r) of None \<Rightarrow> None | Some sh \<Rightarrow> update_each f rs (h(r := sh)))"

text \<open>A \<open>for shape in refs\<close> loop whose body only assigns attributes.\<close>

definition assign_each :: "(shape \<Rightarrow> shape) \<Rightarrow> ref list \<Rightarrow> (ref \<Rightarrow> shape) \<Rightarrow> (ref \<Rightarrow> shape)" where
  "assign_each f rs h = fold (\<lambda>r h'. h'(r := f (h' r))) rs h"

definition set_mode :: "canvas \<Rightarrow> string \<Rightarrow> canvas" where
  "set_mode c v =
     c\<lparr>mode := v, selected_shapes := [], selected_endpoint := None,
       is_moving := False, is_resizing := False, resize_handle := None\<rparr>"

definition push_state :: "canvas \<Rightarrow> canvas" where
  "push_state c = c\<lparr>redo_stack := []\<rparr>"

definition push_property_change ::
  "canvas \<Rightarrow> string \<Rightarrow> property_value \<Rightarrow> property_value \<Rightarrow> canvas" where
  "push_property_change c property_name old_value new_value =
     c\<lparr>undo_stack := undo_stack c @ [Op_change_property property_name old_value new_value],
       redo_stack := []\<rparr>"

definition set_color :: "canvas \<Rightarrow> string \<Rightarrow> canvas" where
  "set_color c color =
     (let old_color = current_color c;
          c1 = c\<lparr>current_color := color\<rparr>
      in push_property_change c1 ''current_color'' (StrValue old_color) (StrValue color))"

definition set_width :: "canvas \<Rightarrow> int \<Rightarrow> canvas" where
  "set_width c width =
     (let old_width = current_width c;
          c1 = c\<lparr>current_width := width\<rparr>
      in push_property_change c1 ''current_width'' (IntValue old_width) (IntValue width))"

definition set_style :: "canvas \<Rightarrow> dash \<Rightarrow> canvas" where
  "set_style c style =
     (let old_style = current_style c;
          c1 = c\<lparr>current_style := style\<rparr>
      in push_property_change c1 ''current_style'' (StyleValue old_style) (StyleValue style))"

text \<open>\<open>setattr(self, property, value)\<close> for an undo entry. An entry that names another
  attribute, or carries a value of another type than the three setters record, does not
  touch the fields of the model.\<close>

definition setattr :: "canvas \<Rightarrow> string \<Rightarrow> property_value \<Rightarrow> canvas" where
  "setattr c name v =
     (case v of
        StrValue s \<Rightarrow> (if name = ''current_color'' then c\<lparr>current_color := s\<rparr> else c)
      | IntValue i \<Rightarrow> (if name = ''current_width'' then c\<lparr>current_width := i\<rparr> else c)
      | StyleValue d \<Rightarrow> (if name = ''current_style'' then c\<lparr>current_style := d\<rparr> else c))"

definition reset :: "canvas \<Rightarrow> canvas" where
  "reset c = c\<lparr>shapes := [], current_points := []\<rparr>"

subsection \<open>Snap engine\<close>

text \<open>The candidates one shape contributes in the first loop of \<open>get_snap_point\<close>.\<close>

definition midpoints_of :: "point list \<Rightarrow> nat \<Rightarrow> point list" where
  \<comment> \<open>\<open>for i in range(n)\<close>: the midpoint of \<open>pts[i]\<close> and \<open>pts[(i + 1) % n]\<close>\<close>
  "midpoints_of pts n =
     map (\<lambda>i. let p1 = pts ! i; p2 = pts ! ((i + 1) mod n)
               in ((fst p1 + fst p2) / 2, (snd p1 + snd p2) / 2)) [0..<n]"

definition shape_snap_points :: "bool \<Rightarrow> bool \<Rightarrow> shape \<Rightarrow> point list option" where
  "shape_snap_points endpoint midpoint sh =
     (case s_class sh of
        Line \<Rightarrow>
          do {
            e \<leftarrow> (if endpoint
                   then do { x1 \<leftarrow> s_x1 sh; y1 \<leftarrow> s_y1 sh; x2 \<leftarrow> s_x2 sh; y2 \<leftarrow> s_y2 sh;
                             Some [(x1, y1), (x2, y2)] }
                   else Some []);
            m \<leftarrow> (if midpoint
                   then do { x1 \<leftarrow> s_x1 sh; x2 \<leftarrow> s_x2 sh; y1 \<leftarrow> s_y1 sh; y2 \<leftarrow> s_y2 sh;
                             Some [((x1 + x2) / 2, (y1 + y2) / 2)] }
                   else Some []);
            Some (e @ m)
          }
      | Rectangle \<Rightarrow>
          do {
            x1 \<leftarrow> s_x1 sh; y1 \<leftarrow> s_y1 sh; x2 \<leftarrow> s_x2 sh; y2 \<leftarrow> s_y2 sh;
            let pts = [(x1, y1), (x2, y1), (x2, y2), (x1, y2)];
            Some ((if endpoint then pts else []) @ (if midpoint then midpoints_of pts 4 else []))
          }
      | Circle \<Rightarrow>
          (if endpoint
           then do { cx \<leftarrow> s_center_x sh; cy \<leftarrow> s_center_y sh; Some [(cx, cy)] }
           else Some [])
      | Polygon \<Rightarrow>
          Some ((if endpoint then s_points sh else []) @
                (if midpoint then midpoints_of (s_points sh) (length (s_points sh)) else [])))"

text \<open>The second loop: every shape with every later shape of the list.\<close>

fun pair_intersections :: "shape list \<Rightarrow> point list option" where
  "pair_intersections [] = Some []"
| "pair_intersections (shape1 # rest) =
     do {
       a \<leftarrow> collect (\<lambda>shape2. get_intersection_points shape1 shape2) rest;
       b \<leftarrow> pair_intersections rest;
       Some (a @ b)
     }"

definition snap_points :: "canvas \<Rightarrow> point list option" where
  "snap_points c =
     do {
       a \<leftarrow> collect (shape_snap_points (snap_endpoint c) (snap_midpoint c)) (map (heap c) (shapes c));
       b \<leftarrow> (if snap_intersection c then pair_intersections (map (heap c) (shapes c)) else Some []);
       Some (a @ b)
     }"

text \<open>The search loop. Its variables are \<open>closest_point\<close> and \<open>min_distance\<close>, where
  \<^term>\<open>None\<close> as \<open>min_distance\<close> is \<open>float('inf')\<close>; the threshold is the local
  \<open>snap_distance = 10\<close>.\<close>

fun closest_loop :: "real \<Rightarrow> real \<Rightarrow> point list \<Rightarrow> point option \<Rightarrow> real option \<Rightarrow> point option" where
  "closest_loop x y [] closest_point min_distance = closest_point"
| "closest_loop x y (pt # rest) closest_point min_distance =
     (let distance = sqrt ((x - fst pt)\<^sup>2 + (y - snd pt)\<^sup>2) in
      if (case min_distance of None \<Rightarrow> True | Some m \<Rightarrow> distance < m) \<and> distance \<le> 10
      then closest_loop x y rest (Some pt) (Some distance)
      else closest_loop x y rest closest_point min_distance)"

text \<open>The last line is \<open>closest_point if closest_point else (x, y)\<close>; a tuple of two
  numbers is never empty, so it is false only when it is \<open>None\<close>.\<close>

definition get_snap_point :: "canvas \<Rightarrow> real \<Rightarrow> real \<Rightarrow> point option" where
  "get_snap_point c x y =
     (if \<not> snap_enabled c then Some (x, y)
      else
        do {
          pts \<leftarrow> snap_points c;
          Some (case closest_loop x y pts None None of None \<Rightarrow> (x, y) | Some p \<Rightarrow> p)
        })"

subsection \<open>Drawing\<close>

definition get_resize_handles :: "canvas \<Rightarrow> (string \<times> point) list option" where
  \<comment> \<open>the dict of handles, in insertion order\<close>
  "get_resize_handles c =
     (if selected_shapes c = [] then Some []
      else if s_class (heap c (hd (selected_shapes c))) = Rectangle then
        do {
          let rect = heap c (hd (selected_shapes c));
          x1 \<leftarrow> s_x1 rect; y1 \<leftarrow> s_y1 rect; x2 \<leftarrow> s_x2 rect; y2 \<leftarrow> s_y2 rect;
          Some [(''nw'', (x1, y1)),
                (''n'', (x1 + (x2 - x1) / 2, y1)),
                (''ne'', (x2, y1)),
                (''e'', (x2, y1 + (y2 - y1) / 2)),
                (''se'', (x2, y2)),
                (''s'', (x1 + (x2 - x1) / 2, y2)),
                (''sw'', (x1, y2)),
                (''w'', (x1, y1 + (y2 - y1) / 2))]
        }
      else Some [])"

definition get_resize_handle_at_point :: "canvas \<Rightarrow> real \<Rightarrow> real \<Rightarrow> string option option" where
  \<comment> \<open>the outer option is the exception, the inner one Python's \<open>None\<close>\<close>
  "get_resize_handle_at_point c x y =
     (if selected_shapes c = [] then Some None
      else
        do {
          handles \<leftarrow> get_resize_handles c;
          Some (map_option fst
                  (find (\<lambda>(handle_name, (hx, hy)). \<bar>x - hx\<bar> \<le> 5 \<and> \<bar>y - hy\<bar> \<le> 5) handles))
        })"

text \<open>The commit shared by the two-point modes of \<open>on_click\<close>: the new shape is appended,
  one \<open>add_shape\<close> entry is pushed, the redo stack is cleared.\<close>

definition commit_shape :: "canvas \<Rightarrow> shape \<Rightarrow> canvas" where
  "commit_shape c sh =
     (let (c1, r) = new_object c sh in
      c1\<lparr>shapes := shapes c1 @ [r],
         undo_stack := undo_stack c1 @ [Op_add_shape r],
         redo_stack := [],
         current_points := []\<rparr>)"

definition on_click :: "canvas \<Rightarrow> real \<Rightarrow> real \<Rightarrow> canvas option" where
  "on_click c x y =
     do {
       sp \<leftarrow> get_snap_point c x y;
       handle \<leftarrow> (if selected_shapes c \<noteq> [] \<and> s_class (heap c (hd (selected_shapes c))) = Rectangle
                  then get_resize_handle_at_point c x y else Some None);
       (case handle of
          Some h \<Rightarrow>
            Some (c\<lparr>is_resizing := True, resize_handle := Some h, last_x := Some x, last_y := Some y\<rparr>)
        | None \<Rightarrow>
            (if mode c = ''line'' then
               (if current_points c = [] then Some (c\<lparr>current_points := [sp]\<rparr>)
                else
                  (let (x1, y1) = hd (current_points c) in
                   Some (commit_shape c
                     (Line_init x1 y1 (fst sp) (snd sp) (current_color c) (current_width c) (current_style c)))))
             else if mode c = ''rectangle'' then
               (if current_points c = [] then Some (c\<lparr>current_points := [sp]\<rparr>)
                else
                  (let (x1, y1) = hd (current_points c) in
                   Some (commit_shape c
                     (Rectangle_init x1 y1 (fst sp) (snd sp) (current_color c) (current_width c) (current_style c)))))
             else if mode c = ''circle'' then
               (if current_points c = [] then Some (c\<lparr>current_points := [sp]\<rparr>)
                else
                  (let (x1, y1) = hd (current_points c) in
                   Some (commit_shape c
                     (Circle_init x1 y1 (fst sp) (snd sp) (current_color c) (current_width c) (current_style c)))))
             else if mode c = ''polygon'' then
               Some (c\<lparr>current_points := current_points c @ [sp]\<rparr>)
             else Some c))
     }"

definition complete_shape :: "canvas \<Rightarrow> canvas" where
  "complete_shape c =
     (if current_points c = [] then c
      else
        (let pts = current_points c in
         if mode c = ''line'' \<and> length pts = 2 then
           commit_shape c (Line_init (fst (pts ! 0)) (snd (pts ! 0)) (fst (pts ! 1)) (snd (pts ! 1))
             (current_color c) (current_width c) (current_style c))
         else if mode c = ''rectangle'' \<and> length pts = 2 then
           commit_shape c (Rectangle_init (fst (pts ! 0)) (snd (pts ! 0)) (fst (pts ! 1)) (snd (pts ! 1))
             (current_color c) (current_width c) (current_style c))
         else if mode c = ''circle'' \<and> length pts = 2 then
           commit_shape c (Circle_init (fst (pts ! 0)) (snd (pts ! 0)) (fst (pts ! 1)) (snd (pts ! 1))
             (current_color c) (current_width c) (current_style c))
         else if mode c = ''polygon'' \<and> 3 \<le> length pts then
           commit_shape c (Polygon_init pts (current_color c) (current_width c) (current_style c))
         else c\<lparr>current_points := []\<rparr>))"

definition on_right_click :: "canvas \<Rightarrow> canvas" where
  "on_right_click c =
     (if mode c = ''polygon'' \<and> 3 \<le> length (current_points c) then complete_shape c else c)"

text \<open>\<open>on_motion\<close> draws the snap marker and the preview: it appends the snapped pointer
  to \<open>current_points\<close> and pops it again.\<close>

definition on_motion :: "canvas \<Rightarrow> real \<Rightarrow> real \<Rightarrow> canvas option" where
  "on_motion c x y = do { sp \<leftarrow> get_snap_point c x y; Some c }"

definition on_escape :: "canvas \<Rightarrow> canvas" where
  "on_escape c = c\<lparr>current_points := []\<rparr>"

subsection \<open>Selection\<close>

text \<open>The loop of \<open>on_select\<close> over \<open>reversed(self.shapes)\<close>; returning is the \<open>break\<close>.\<close>

fun select_loop :: "canvas \<Rightarrow> real \<Rightarrow> real \<Rightarrow> ref list \<Rightarrow> canvas option" where
  "select_loop c x y [] = Some c"
| "select_loop c x y (r # rest) =
     (let sh = heap c r in
      case s_class sh of
        Rectangle \<Rightarrow>
          (case (s_x1 sh, s_y1 sh, s_x2 sh, s_y2 sh) of
             (Some x1, Some y1, Some x2, Some y2) \<Rightarrow>
               (let min_distance =
                      min (distance_to_line (x, y) (x1, y1) (x2, y1))
                        (min (distance_to_line (x, y) (x2, y1) (x2, y2))
                          (min (distance_to_line (x, y) (x2, y2) (x1, y2))
                               (distance_to_line (x, y) (x1, y2) (x1, y1))))
                in if min_distance < 5
                   then Some (c\<lparr>selected_shapes := selected_shapes c @ [r]\<rparr>)
                   else select_loop c x y rest)
           | _ \<Rightarrow> None)
      | Line \<Rightarrow>
          (case (s_x1 sh, s_y1 sh, s_x2 sh, s_y2 sh) of
             (Some x1, Some y1, Some x2, Some y2) \<Rightarrow>
               (if \<bar>x - x1\<bar> < 5 \<and> \<bar>y - y1\<bar> < 5
                then Some (c\<lparr>selected_shapes := selected_shapes c @ [r], selected_endpoint := Some 0\<rparr>)
                else if \<bar>x - x2\<bar> < 5 \<and> \<bar>y - y2\<bar> < 5
                then Some (c\<lparr>selected_shapes := selected_shapes c @ [r], selected_endpoint := Some 1\<rparr>)
                else if distance_to_line (x, y) (x1, y1) (x2, y2) < 5
                then Some (c\<lparr>selected_shapes := selected_shapes c @ [r]\<rparr>)
                else select_loop c x y rest)
           | _ \<Rightarrow> None)
      | Circle \<Rightarrow>
          (case (s_center_x sh, s_center_y sh, s_x2 sh, s_y2 sh) of
             (Some center_x, Some center_y, Some x2, Some y2) \<Rightarrow>
               (let radius = sqrt ((x2 - center_x)\<^sup>2 + (y2 - center_y)\<^sup>2);
                    distance = sqrt ((x - center_x)\<^sup>2 + (y - center_y)\<^sup>2)
                in if distance \<le> radius
                   then Some (c\<lparr>selected_shapes := selected_shapes c @ [r]\<rparr>)
                   else select_loop c x y rest)
           | _ \<Rightarrow> None)
      | Polygon \<Rightarrow> select_loop c x y rest)"

definition on_select :: "canvas \<Rightarrow> real \<Rightarrow> real \<Rightarrow> canvas option" where
  "on_select c x y =
     select_loop (c\<lparr>selected_shapes := [], selected_endpoint := None\<rparr>) x y (rev (shapes c))"

definition select_all :: "canvas \<Rightarrow> canvas" where
  "select_all c =
     (if shapes c = [] then c
      else
        (let h1 = assign_each (\<lambda>sh. sh\<lparr>s_is_selected := Some False\<rparr>) (selected_shapes c) (heap c);
             h2 = assign_each (\<lambda>sh. sh\<lparr>s_is_selected := Some True\<rparr>) (shapes c) h1
         in c\<lparr>selected_shapes := shapes c, heap := h2\<rparr>))"

subsection \<open>Moving and resizing\<close>

text \<open>The bodies of the four loops of \<open>move_shape\<close> (and of \<open>move_shape_by\<close>): \<open>+=\<close> reads
  the attribute first.\<close>

definition move_corners :: "real \<Rightarrow> real \<Rightarrow> shape \<Rightarrow> shape option" where
  "move_corners dx dy sh =
     do {
       x1 \<leftarrow> s_x1 sh; y1 \<leftarrow> s_y1 sh; x2 \<leftarrow> s_x2 sh; y2 \<leftarrow> s_y2 sh;
       Some (sh\<lparr>s_x1 := Some (x1 + dx), s_y1 := Some (y1 + dy),
                s_x2 := Some (x2 + dx), s_y2 := Some (y2 + dy),
                s_points := [(x1 + dx, y1 + dy), (x2 + dx, y1 + dy),
                             (x2 + dx, y2 + dy), (x1 + dx, y2 + dy)]\<rparr>)
     }"

definition move_ends :: "real \<Rightarrow> real \<Rightarrow> shape \<Rightarrow> shape option" where
  "move_ends dx dy sh =
     do {
       x1 \<leftarrow> s_x1 sh; y1 \<leftarrow> s_y1 sh; x2 \<leftarrow> s_x2 sh; y2 \<leftarrow> s_y2 sh;
       Some (sh\<lparr>s_x1 := Some (x1 + dx), s_y1 := Some (y1 + dy),
                s_x2 := Some (x2 + dx), s_y2 := Some (y2 + dy),
                s_points := [(x1 + dx, y1 + dy), (x2 + dx, y2 + dy)]\<rparr>)
     }"

definition move_circle :: "real \<Rightarrow> real \<Rightarrow> shape \<Rightarrow> shape option" where
  "move_circle dx dy sh =
     do {
       cx \<leftarrow> s_center_x sh; cy \<leftarrow> s_center_y sh; x2 \<leftarrow> s_x2 sh; y2 \<leftarrow> s_y2 sh;
       Some (sh\<lparr>s_center_x := Some (cx + dx), s_center_y := Some (cy + dy),
                s_x2 := Some (x2 + dx), s_y2 := Some (y2 + dy),
                s_points := [(cx + dx, cy + dy), (x2 + dx, y2 + dy)]\<rparr>)
     }"

definition move_vertices :: "real \<Rightarrow> real \<Rightarrow> shape \<Rightarrow> shape option" where
  "move_vertices dx dy sh = Some (sh\<lparr>s_points := map (\<lambda>(x, y). (x + dx, y + dy)) (s_points sh)\<rparr>)"

definition move_by_class :: "shape_class \<Rightarrow> real \<Rightarrow> real \<Rightarrow> shape \<Rightarrow> shape option" where
  "move_by_class cls dx dy =
     (case cls of
        Rectangle \<Rightarrow> move_corners dx dy
      | Line \<Rightarrow> move_ends dx dy
      | Circle \<Rightarrow> move_circle dx dy
      | Polygon \<Rightarrow> move_vertices dx dy)"

text \<open>\<open>move_shape\<close> picks the loop by the class of the first selected shape and runs it
  over the whole selection.\<close>

definition move_shape :: "canvas \<Rightarrow> real \<Rightarrow> real \<Rightarrow> canvas option" where
  "move_shape c dx dy =
     (if selected_shapes c = [] then Some c
      else
        do {
          h \<leftarrow> update_each (move_by_class (s_class (heap c (hd (selected_shapes c)))) dx dy)
                 (selected_shapes c) (heap c);
          Some (c\<lparr>heap := h\<rparr>)
        })"

definition move_shape_by :: "canvas \<Rightarrow> ref \<Rightarrow> real \<Rightarrow> real \<Rightarrow> canvas option" where
  "move_shape_by c r dx dy =
     do {
       sh \<leftarrow> move_by_class (s_class (heap c r)) dx dy (heap c r);
       Some (c\<lparr>heap := (heap c)(r := sh)\<rparr>)
     }"

definition corner_points :: "shape \<Rightarrow> shape option" where
  \<comment> \<open>\<open>shape.points = [(x1, y1), (x2, y1), (x2, y2), (x1, y2)]\<close> from its own attributes\<close>
  "corner_points sh =
     do {
       x1 \<leftarrow> s_x1 sh; y1 \<leftarrow> s_y1 sh; x2 \<leftarrow> s_x2 sh; y2 \<leftarrow> s_y2 sh;
       Some (sh\<lparr>s_points := [(x1, y1), (x2, y1), (x2, y2), (x1, y2)]\<rparr>)
     }"

definition end_points :: "shape \<Rightarrow> shape option" where
  \<comment> \<open>\<open>shape.points = [(x1, y1), (x2, y2)]\<close> from its own attributes\<close>
  "end_points sh =
     do {
       x1 \<leftarrow> s_x1 sh; y1 \<leftarrow> s_y1 sh; x2 \<leftarrow> s_x2 sh; y2 \<leftarrow> s_y2 sh;
       Some (sh\<lparr>s_points := [(x1, y1), (x2, y2)]\<rparr>)
     }"

text \<open>The four conditional loops of \<open>resize_shape\<close> that overwrite the coordinates named by
  the handle: \<open>"n" in self.resize_handle\<close> is membership of the character.\<close>

definition apply_handle :: "string \<Rightarrow> real \<Rightarrow> real \<Rightarrow> ref list \<Rightarrow> (ref \<Rightarrow> shape) \<Rightarrow> (ref \<Rightarrow> shape)" where
  "apply_handle handle snap_x snap_y sel h =
     (let h1 = (if CHR ''n'' \<in> set handle then assign_each (\<lambda>sh. sh\<lparr>s_y1 := Some snap_y\<rparr>) sel h else h);
          h2 = (if CHR ''s'' \<in> set handle then assign_each (\<lambda>sh. sh\<lparr>s_y2 := Some snap_y\<rparr>) sel h1 else h1);
          h3 = (if CHR ''w'' \<in> set handle then assign_each (\<lambda>sh. sh\<lparr>s_x1 := Some snap_x\<rparr>) sel h2 else h2);
          h4 = (if CHR ''e'' \<in> set handle then assign_each (\<lambda>sh. sh\<lparr>s_x2 := Some snap_x\<rparr>) sel h3 else h3)
      in h4)"

definition resize_shape :: "canvas \<Rightarrow> real \<Rightarrow> real \<Rightarrow> canvas option" where
  "resize_shape c x y =
     (if selected_shapes c = [] then Some c
      else
        do {
          let first = hd (selected_shapes c);
          old_x1 \<leftarrow> s_x1 (heap c first);
          old_y1 \<leftarrow> s_y1 (heap c first);
          old_x2 \<leftarrow> s_x2 (heap c first);
          old_y2 \<leftarrow> s_y2 (heap c first);
          sp \<leftarrow> get_snap_point c x y;
          handle \<leftarrow> resize_handle c;
          let h4 = apply_handle handle (fst sp) (snd sp) (selected_shapes c) (heap c);
          new_x2 \<leftarrow> s_x2 (h4 first);
          new_x1 \<leftarrow> s_x1 (h4 first);
          new_y2 \<leftarrow> s_y2 (h4 first);
          new_y1 \<leftarrow> s_y1 (h4 first);
          let width = \<bar>new_x2 - new_x1\<bar>;
          let height = \<bar>new_y2 - new_y1\<bar>;
          if width < MIN_SIZE \<or> height < MIN_SIZE then
            Some (c\<lparr>heap := assign_each
                     (\<lambda>sh. sh\<lparr>s_x1 := Some old_x1, s_y1 := Some old_y1,
                              s_x2 := Some old_x2, s_y2 := Some old_y2\<rparr>)
                     (selected_shapes c) h4\<rparr>)
          else
            do {
              h5 \<leftarrow> update_each corner_points (selected_shapes c) h4;
              Some (c\<lparr>heap := h5\<rparr>)
            }
        })"

definition drag_endpoint :: "canvas \<Rightarrow> real \<Rightarrow> real \<Rightarrow> canvas option" where
  \<comment> \<open>the branch of \<open>on_drag\<close> that moves one end of the selected lines\<close>
  "drag_endpoint c x y =
     (let h1 = (if selected_endpoint c = Some 0
                then assign_each (\<lambda>sh. sh\<lparr>s_x1 := Some x, s_y1 := Some y\<rparr>) (selected_shapes c) (heap c)
                else assign_each (\<lambda>sh. sh\<lparr>s_x2 := Some x, s_y2 := Some y\<rparr>) (selected_shapes c) (heap c))
      in do { h2 \<leftarrow> update_each end_points (selected_shapes c) h1; Some (c\<lparr>heap := h2\<rparr>) })"

definition on_drag :: "canvas \<Rightarrow> real \<Rightarrow> real \<Rightarrow> canvas option" where
  "on_drag c x y =
     (if selected_shapes c = [] then Some c
      else
        do {
          c1 \<leftarrow> (case (last_x c, last_y c) of
                   (Some lx, Some ly) \<Rightarrow>
                     (let dx = x - lx; dy = y - ly in
                      if is_resizing c \<and> s_class (heap c (hd (selected_shapes c))) = Rectangle
                      then resize_shape c x y
                      else if s_class (heap c (hd (selected_shapes c))) = Line \<and> selected_endpoint c \<noteq> None
                      then drag_endpoint c x y
                      else move_shape c dx dy)
                 | _ \<Rightarrow> Some c);
          Some (c1\<lparr>last_x := Some x, last_y := Some y\<rparr>)
        })"

definition on_release :: "canvas \<Rightarrow> canvas" where
  "on_release c = c\<lparr>is_moving := False, is_resizing := False, resize_handle := None,
                    last_x := None, last_y := None\<rparr>"

definition on_move_start :: "canvas \<Rightarrow> real \<Rightarrow> real \<Rightarrow> canvas" where
  "on_move_start c x y =
     (if selected_shapes c \<noteq> [] then c\<lparr>is_moving := True, last_x := Some x, last_y := Some y\<rparr> else c)"

definition on_resize_start :: "canvas \<Rightarrow> real \<Rightarrow> real \<Rightarrow> canvas option" where
  "on_resize_start c x y =
     (if selected_shapes c = [] then Some c
      else
        do {
          handle \<leftarrow> get_resize_handle_at_point c x y;
          Some (case handle of
                  Some h \<Rightarrow> c\<lparr>is_resizing := True, resize_handle := Some h,
                              last_x := Some x, last_y := Some y\<rparr>
                | None \<Rightarrow> c)
        })"

subsection \<open>Undo, redo, delete and duplicate\<close>

text \<open>\<open>list.index(v)\<close> and \<open>list.remove(v)\<close> raise \<open>ValueError\<close> when \<open>v\<close> is not in the
  list; \<open>list.insert(i, v)\<close> is used with \<open>0 \<le> i < len\<close> only.\<close>

fun index_of :: "'a list \<Rightarrow> 'a \<Rightarrow> nat option" where
  "index_of [] v = None"
| "index_of (u # us) v = (if u = v then Some 0 else map_option Suc (index_of us v))"

definition list_remove :: "'a list \<Rightarrow> 'a \<Rightarrow> 'a list option" where
  "list_remove xs v = (if v \<in> set xs then Some (remove1 v xs) else None)"

definition list_insert :: "'a list \<Rightarrow> nat \<Rightarrow> 'a \<Rightarrow> 'a list" where
  "list_insert xs i v = take i xs @ [v] @ drop i xs"

definition restore_shapes :: "nat list \<Rightarrow> ref list \<Rightarrow> ref list \<Rightarrow> ref list" where
  \<comment> \<open>\<open>for i, shape in zip(indices, shapes)\<close>: insert at \<open>i\<close>, or append\<close>
  "restore_shapes indices deleted xs =
     fold (\<lambda>(i, r) ys. if i < length ys then list_insert ys i r else ys @ [r]) (zip indices deleted) xs"

definition remove_present :: "ref list \<Rightarrow> ref list \<Rightarrow> ref list" where
  \<comment> \<open>\<open>for shape in deleted: if shape in self.shapes: self.shapes.remove(shape)\<close>\<close>
  "remove_present deleted xs = fold (\<lambda>r ys. if r \<in> set ys then remove1 r ys else ys) deleted xs"

definition apply_position :: "position \<Rightarrow> shape \<Rightarrow> shape" where
  \<comment> \<open>the four assignments and the new \<open>points\<close> of a resize entry\<close>
  "apply_position p sh =
     sh\<lparr>s_x1 := Some (pos_x1 p), s_y1 := Some (pos_y1 p),
        s_x2 := Some (pos_x2 p), s_y2 := Some (pos_y2 p),
        s_points := [(pos_x1 p, pos_y1 p), (pos_x2 p, pos_y1 p),
                     (pos_x2 p, pos_y2 p), (pos_x1 p, pos_y2 p)]\<rparr>"

definition undo :: "canvas \<Rightarrow> canvas option" where
  "undo c =
     (if undo_stack c = [] then Some c
      else
        (let operation = last (undo_stack c);
             c1 = c\<lparr>undo_stack := butlast (undo_stack c), redo_stack := redo_stack c @ [operation]\<rparr>
         in case operation of
              Op_add_shape r \<Rightarrow>
                do { xs \<leftarrow> list_remove (shapes c1) r; Some (c1\<lparr>shapes := xs\<rparr>) }
            | Op_delete_shape r \<Rightarrow> Some (c1\<lparr>shapes := shapes c1 @ [r]\<rparr>)
            | Op_delete_shapes deleted indices \<Rightarrow>
                Some (c1\<lparr>shapes := restore_shapes indices deleted (shapes c1)\<rparr>)
            | Op_move_shape r original_position new_position \<Rightarrow>
                do {
                  x1 \<leftarrow> s_x1 (heap c1 r);
                  y1 \<leftarrow> s_y1 (heap c1 r);
                  move_shape_by c1 r (pos_x1 original_position - x1) (pos_y1 original_position - y1)
                }
            | Op_resize_shape r original_position new_position \<Rightarrow>
                Some (c1\<lparr>heap := (heap c1)(r := apply_position original_position (heap c1 r))\<rparr>)
            | Op_change_property name old_value new_value \<Rightarrow> Some (setattr c1 name old_value)))"

definition redo :: "canvas \<Rightarrow> canvas option" where
  "redo c =
     (if redo_stack c = [] then Some c
      else
        (let operation = last (redo_stack c);
             c1 = c\<lparr>redo_stack := butlast (redo_stack c), undo_stack := undo_stack c @ [operation]\<rparr>
         in case operation of
              Op_add_shape r \<Rightarrow> Some (c1\<lparr>shapes := shapes c1 @ [r]\<rparr>)
            | Op_delete_shape r \<Rightarrow>
                do { xs \<leftarrow> list_remove (shapes c1) r; Some (c1\<lparr>shapes := xs\<rparr>) }
            | Op_delete_shapes deleted indices \<Rightarrow>
                Some (c1\<lparr>shapes := remove_present deleted (shapes c1)\<rparr>)
            | Op_move_shape r original_position new_position \<Rightarrow>
                do {
                  x1 \<leftarrow> s_x1 (heap c1 r);
                  y1 \<leftarrow> s_y1 (heap c1 r);
                  move_shape_by c1 r (pos_x1 new_position - x1) (pos_y1 new_position - y1)
                }
            | Op_resize_shape r original_position new_position \<Rightarrow>
                Some (c1\<lparr>heap := (heap c1)(r := apply_position new_position (heap c1 r))\<rparr>)
            | Op_change_property name old_value new_value \<Rightarrow> Some (setattr c1 name new_value)))"

definition delete_selected :: "canvas \<Rightarrow> canvas option" where
  "delete_selected c =
     (if selected_shapes c = [] then Some c
      else
        do {
          let deleted_shapes = selected_shapes c;
          deleted_indices \<leftarrow> those (map (index_of (shapes c)) deleted_shapes);
          Some (c\<lparr>undo_stack := undo_stack c @ [Op_delete_shapes deleted_shapes deleted_indices],
                  shapes := remove_present deleted_shapes (shapes c),
                  selected_shapes := [],
                  redo_stack := []\<rparr>)
        })"

text \<open>The copy \<open>duplicate_selected\<close> builds of one shape, by its class.\<close>

definition duplicate_of :: "shape \<Rightarrow> shape option" where
  "duplicate_of sh =
     (case s_class sh of
        Rectangle \<Rightarrow>
          do {
            x1 \<leftarrow> s_x1 sh; y1 \<leftarrow> s_y1 sh; x2 \<leftarrow> s_x2 sh; y2 \<leftarrow> s_y2 sh;
            Some (Rectangle_init (x1 + 20) (y1 + 20) (x2 + 20) (y2 + 20)
                    (s_color sh) (s_width sh) (s_style sh))
          }
      | Line \<Rightarrow>
          do {
            x1 \<leftarrow> s_x1 sh; y1 \<leftarrow> s_y1 sh; x2 \<leftarrow> s_x2 sh; y2 \<leftarrow> s_y2 sh;
            Some (Line_init (x1 + 20) (y1 + 20) (x2 + 20) (y2 + 20)
                    (s_color sh) (s_width sh) (s_style sh))
          }
      | Circle \<Rightarrow>
          do {
            cx \<leftarrow> s_center_x sh; cy \<leftarrow> s_center_y sh; r \<leftarrow> s_radius sh;
            Some (Circle_init (cx + 20) (cy + 20) (cx + 20 + r) (cy + 20)
                    (s_color sh) (s_width sh) (s_style sh))
          }
      | Polygon \<Rightarrow>
          Some (Polygon_init (map (\<lambda>(x, y). (x + 20, y + 20)) (s_points sh))
                  (s_color sh) (s_width sh) (s_style sh)))"

text \<open>The loop of \<open>duplicate_selected\<close>: each copy is a new object, appended to
  \<open>new_shapes\<close> and to \<open>self.shapes\<close>.\<close>

fun duplicate_loop :: "ref list \<Rightarrow> canvas \<Rightarrow> ref list \<Rightarrow> (canvas \<times> ref list) option" where
  "duplicate_loop [] c new_shapes = Some (c, new_shapes)"
| "duplicate_loop (r # rest) c new_shapes =
     (case duplicate_of (heap c r) of
        None \<Rightarrow> None
      | Some new_shape \<Rightarrow>
          (let (c1, n) = new_object c new_shape in
           duplicate_loop rest (c1\<lparr>shapes := shapes c1 @ [n]\<rparr>) (new_shapes @ [n])))"

definition duplicate_selected :: "canvas \<Rightarrow> canvas option" where
  "duplicate_selected c =
     (if selected_shapes c = [] then Some c
      else
        do {
          let selected = selected_shapes c;
          let c1 = push_state c;
          (c2, new_shapes) \<leftarrow> duplicate_loop selected c1 [];
          let c3 = c2\<lparr>selected_shapes := remove_present selected (selected_shapes c2)\<rparr>;
          Some (c3\<lparr>selected_shapes := new_shapes\<rparr>)
        })"

section \<open>Example states\<close>

text \<open>A nearly horizontal guide line from \<open>(10, 20)\<close> to \<open>(110, 21)\<close>, held by the manager.\<close>

definition guide_points :: "ref \<Rightarrow> Point" where
  "guide_points =
     (\<lambda>_. \<lparr>p_x = 0, p_y = 0\<rparr>)(0 := \<lparr>p_x = 10, p_y = 20\<rparr>, 1 := \<lparr>p_x = 110, p_y = 21\<rparr>)"

definition guide_line_state :: annotation_state where
  "guide_line_state =
     \<lparr>point_heap = guide_points,
      ann_heap = (\<lambda>_. LineAnnotation_init guide_points 0 1 ''black'' 1),
      annotations = [0],
      selected_annotations = []\<rparr>"

text \<open>Two rectangle annotations, the second one selected.\<close>

definition two_rect_state :: annotation_state where
  "two_rect_state =
     \<lparr>point_heap =
        (\<lambda>_. \<lparr>p_x = 0, p_y = 0\<rparr>)(1 := \<lparr>p_x = 10, p_y = 10\<rparr>,
          2 := \<lparr>p_x = 50, p_y = 50\<rparr>, 3 := \<lparr>p_x = 60, p_y = 60\<rparr>),
      ann_heap =
        (\<lambda>_. RectangleAnnotation_init 0 1 ''black'' 1)
          (1 := (RectangleAnnotation_init 2 3 ''black'' 1)\<lparr>is_selected := True\<rparr>),
      annotations = [0, 1],
      selected_annotations = [1]\<rparr>"

text \<open>The state after \<open>add_annotation(r)\<close> was called twice with the same rectangle \<open>r\<close>
  and a click at \<open>(5, 5)\<close> selected \<open>r\<close>: the collection holds \<open>r\<close> twice.\<close>

definition corner_points_store :: "ref \<Rightarrow> Point" where
  "corner_points_store = (\<lambda>_. \<lparr>p_x = 0, p_y = 0\<rparr>)(1 := \<lparr>p_x = 10, p_y = 10\<rparr>)"

definition twice_added_state :: annotation_state where
  "twice_added_state =
     \<lparr>point_heap = corner_points_store,
      ann_heap = (\<lambda>_. RectangleAnnotation_init 0 1 ''black'' 1)
        (0 := (RectangleAnnotation_init 0 1 ''black'' 1)\<lparr>is_selected := True\<rparr>),
      annotations = [0, 0],
      selected_annotations = [0]\<rparr>"

text \<open>The resize scenario: in rectangle mode, click at \<open>(100, 100)\<close> and at
  \<open>(200, 200)\<close>, select the new rectangle, press on its \<open>se\<close> handle.\<close>

definition rect_mode_canvas :: canvas where
  "rect_mode_canvas = set_mode DrawingCanvas_init ''rectangle''"

definition first_corner_canvas :: canvas where
  "first_corner_canvas = rect_mode_canvas\<lparr>current_points := [(100, 100)]\<rparr>"

definition one_rect_canvas :: canvas where
  "one_rect_canvas =
     rect_mode_canvas\<lparr>heap := (heap rect_mode_canvas)(0 := Rectangle_init 100 100 200 200 ''black'' 1 None),
       next_ref := 1, shapes := [0], undo_stack := [Op_add_shape 0]\<rparr>"

definition rect_selected_canvas :: canvas where
  "rect_selected_canvas = one_rect_canvas\<lparr>selected_shapes := [0]\<rparr>"

definition resizing_canvas :: canvas where
  "resizing_canvas =
     rect_selected_canvas\<lparr>is_resizing := True, resize_handle := Some ''se'',
       last_x := Some 200, last_y := Some 200\<rparr>"

text \<open>The same canvas after the pointer was dragged to \<open>(50, 50)\<close>.\<close>

definition resized_canvas :: canvas where
  "resized_canvas =
     resizing_canvas\<lparr>heap := (heap resizing_canvas)
       (0 := (Rectangle_init 100 100 200 200 ''black'' 1 None)
          \<lparr>s_y2 := Some 50, s_x2 := Some 50,
           s_points := [(100, 100), (50, 100), (50, 50), (100, 50)]\<rparr>)\<rparr>"

text \<open>The coordinates an object stores, and the width and height \<open>resize_shape\<close> measures
  on them.\<close>

definition stored_corners :: "canvas \<Rightarrow> ref \<Rightarrow> real option \<times> real option \<times> real option \<times> real option" where
  "stored_corners c r = (s_x1 (heap c r), s_y1 (heap c r), s_x2 (heap c r), s_y2 (heap c r))"

definition measured_size :: "canvas \<Rightarrow> ref \<Rightarrow> (real \<times> real) option" where
  "measured_size c r =
     do {
       x2 \<leftarrow> s_x2 (heap c r); x1 \<leftarrow> s_x1 (heap c r);
       y2 \<leftarrow> s_y2 (heap c r); y1 \<leftarrow> s_y1 (heap c r);
       Some (\<bar>x2 - x1\<bar>, \<bar>y2 - y1\<bar>)
     }"

text \<open>The distance from the pointer that the search loop of \<open>get_snap_point\<close> computes
  for a candidate.\<close>

definition pointer_distance :: "real \<Rightarrow> real \<Rightarrow> point \<Rightarrow> real" where
  "pointer_distance x y pt = sqrt ((x - fst pt)\<^sup>2 + (y - snd pt)\<^sup>2)"

text \<open>The snap scenario: a canvas with one line from \<open>(100, 300)\<close> to \<open>(300, 300)\<close>, as
  after two clicks in line mode.\<close>

definition line_canvas :: canvas where
  "line_canvas =
     DrawingCanvas_init\<lparr>heap := (heap DrawingCanvas_init)(0 := Line_init 100 300 300 300 ''black'' 1 None),
       next_ref := 1, shapes := [0], undo_stack := [Op_add_shape 0]\<rparr>"

text \<open>The selection scenario: the line of \<open>line_canvas\<close> is drawn with two clicks,
  selected, and its creation undone; or it is selected, deleted, the deletion undone, the
  line selected again and the deletion redone.\<close>

definition line_started_canvas :: canvas where
  "line_started_canvas = DrawingCanvas_init\<lparr>current_points := [(100, 300)]\<rparr>"

definition line_selected_canvas :: canvas where
  "line_selected_canvas = line_canvas\<lparr>selected_shapes := [0]\<rparr>"

definition undone_canvas :: canvas where
  "undone_canvas = line_selected_canvas\<lparr>shapes := [], undo_stack := [], redo_stack := [Op_add_shape 0]\<rparr>"

definition deleted_canvas :: canvas where
  "deleted_canvas = line_canvas\<lparr>shapes := [], undo_stack := [Op_add_shape 0, Op_delete_shapes [0] [0]]\<rparr>"

definition restored_canvas :: canvas where
  "restored_canvas = line_canvas\<lparr>redo_stack := [Op_delete_shapes [0] [0]]\<rparr>"

definition redone_canvas :: canvas where
  "redone_canvas = deleted_canvas\<lparr>selected_shapes := [0]\<rparr>"

text \<open>The edits of the rectangle of the resize scenario: duplicated with Ctrl+D, or
  dragged from \<open>(150, 150)\<close> to \<open>(160, 170)\<close>.\<close>

definition duplicated_canvas :: canvas where
  "duplicated_canvas =
     rect_selected_canvas\<lparr>heap := (heap rect_selected_canvas)(1 := Rectangle_init 120 120 220 220 ''black'' 1 None),
       next_ref := 2, shapes := [0, 1], selected_shapes := [1]\<rparr>"

definition drag_started_canvas :: canvas where
  "drag_started_canvas = rect_selected_canvas\<lparr>last_x := Some 150, last_y := Some 150\<rparr>"

definition moved_canvas :: canvas where
  "moved_canvas =
     drag_started_canvas\<lparr>heap := (heap drag_started_canvas)
       (0 := (Rectangle_init 100 100 200 200 ''black'' 1 None)
          \<lparr>s_x1 := Some 110, s_y1 := Some 120, s_x2 := Some 210, s_y2 := Some 220,
           s_points := [(110, 120), (210, 120), (210, 220), (110, 220)]\<rparr>),
       last_x := Some 160, last_y := Some 170\<rparr>"

text \<open>Two rectangles selected together: after the rectangle of the resize scenario a
  second one is drawn with clicks at \<open>(300, 300)\<close> and \<open>(400, 400)\<close>, Ctrl+A selects
  both, the pointer is pressed on the \<open>se\<close> handle of the first at \<open>(200, 200)\<close> and
  dragged to \<open>(105, 130)\<close>.\<close>

definition rect_A :: shape where
  "rect_A = Rectangle_init 100 100 200 200 ''black'' 1 None"

definition rect_B :: shape where
  "rect_B = Rectangle_init 300 300 400 400 ''black'' 1 None"

definition second_corner_canvas :: canvas where
  "second_corner_canvas = one_rect_canvas\<lparr>current_points := [(300, 300)]\<rparr>"

definition two_rect_canvas :: canvas where
  "two_rect_canvas =
     rect_mode_canvas\<lparr>heap := (heap rect_mode_canvas)(0 := rect_A, 1 := rect_B),
       next_ref := 2, shapes := [0, 1], undo_stack := [Op_add_shape 0, Op_add_shape 1]\<rparr>"

definition both_selected_canvas :: canvas where
  "both_selected_canvas =
     two_rect_canvas\<lparr>heap := (heap rect_mode_canvas)
         (0 := rect_A\<lparr>s_is_selected := Some True\<rparr>, 1 := rect_B\<lparr>s_is_selected := Some True\<rparr>),
       selected_shapes := [0, 1]\<rparr>"

definition both_resizing_canvas :: canvas where
  "both_resizing_canvas =
     both_selected_canvas\<lparr>is_resizing := True, resize_handle := Some ''se'',
       last_x := Some 200, last_y := Some 200\<rparr>"

definition both_rejected_canvas :: canvas where
  "both_rejected_canvas =
     both_resizing_canvas\<lparr>heap := (heap rect_mode_canvas)
         (0 := rect_A\<lparr>s_is_selected := Some True\<rparr>,
          1 := rect_B\<lparr>s_is_selected := Some True,
                 s_x1 := Some 100, s_y1 := Some 100, s_x2 := Some 200, s_y2 := Some 200\<rparr>)\<rparr>"

text \<open>A second line drawn across the line of \<open>line_canvas\<close>, with clicks at
  \<open>(150, 100)\<close> and \<open>(150, 400)\<close>: the two cross at \<open>(150, 300)\<close>.\<close>

definition cross_started_canvas :: canvas where
  "cross_started_canvas = line_canvas\<lparr>current_points := [(150, 100)]\<rparr>"

definition cross_canvas :: canvas where
  "cross_canvas =
     line_canvas\<lparr>heap := (heap DrawingCanvas_init)
         (0 := Line_init 100 300 300 300 ''black'' 1 None,
          1 := Line_init 150 100 150 400 ''black'' 1 None),
       next_ref := 2, shapes := [0, 1], undo_stack := [Op_add_shape 0, Op_add_shape 1]\<rparr>"

text \<open>A line and a rectangle moved together: on \<open>line_canvas\<close> the mode is set to
  rectangle, a rectangle is drawn with clicks at \<open>(100, 100)\<close> and \<open>(200, 200)\<close>, Ctrl+A
  selects the line and the rectangle, and the pointer is dragged from \<open>(150, 150)\<close> to
  \<open>(160, 170)\<close>.\<close>

definition mixed_mode_canvas :: canvas where
  "mixed_mode_canvas = line_canvas\<lparr>mode := ''rectangle''\<rparr>"

definition mixed_corner_canvas :: canvas where
  "mixed_corner_canvas = mixed_mode_canvas\<lparr>current_points := [(100, 100)]\<rparr>"

definition mixed_canvas :: canvas where
  "mixed_canvas =
     mixed_mode_canvas\<lparr>heap := (heap DrawingCanvas_init)
         (0 := Line_init 100 300 300 300 ''black'' 1 None,
          1 := Rectangle_init 100 100 200 200 ''black'' 1 None),
       next_ref := 2, shapes := [0, 1], undo_stack := [Op_add_shape 0, Op_add_shape 1]\<rparr>"

definition mixed_selected_canvas :: canvas where
  "mixed_selected_canvas =
     mixed_canvas\<lparr>heap := (heap DrawingCanvas_init)
         (0 := (Line_init 100 300 300 300 ''black'' 1 None)\<lparr>s_is_selected := Some True\<rparr>,
          1 := (Rectangle_init 100 100 200 200 ''black'' 1 None)\<lparr>s_is_selected := Some True\<rparr>),
       selected_shapes := [0, 1]\<rparr>"

definition mixed_drag_canvas :: canvas where
  "mixed_drag_canvas = mixed_selected_canvas\<lparr>last_x := Some 150, last_y := Some 150\<rparr>"

definition mixed_moved_canvas :: canvas where
  "mixed_moved_canvas =
     mixed_drag_canvas\<lparr>heap := (heap DrawingCanvas_init)
         (0 := (Line_init 100 300 300 300 ''black'' 1 None)
            \<lparr>s_is_selected := Some True,
             s_x1 := Some 110, s_y1 := Some 320, s_x2 := Some 310, s_y2 := Some 320,
             s_points := [(110, 320), (310, 320)]\<rparr>,
          1 := (Rectangle_init 100 100 200 200 ''black'' 1 None)
            \<lparr>s_is_selected := Some True,
             s_x1 := Some 110, s_y1 := Some 120, s_x2 := Some 210, s_y2 := Some 220,
             s_points := [(110, 120), (210, 220)]\<rparr>),
       last_x := Some 160, last_y := Some 170\<rparr>"

section \<open>Evaluating square roots and constructors\<close>

lemma sqrt_9: "sqrt 9 = 3" by (rule real_sqrt_unique) simp_all
lemma sqrt_2500: "sqrt 2500 = 50" by (rule real_sqrt_unique) simp_all
lemma sqrt_10000: "sqrt 10000 = 100" by (rule real_sqrt_unique) simp_all

lemma sqrt_le_bound: "0 \<le> b \<Longrightarrow> sqrt v \<le> b \<longleftrightarrow> v \<le> b\<^sup>2"
proof -
  assume b: "0 \<le> b"
  then have "sqrt (b\<^sup>2) = b" by simp
  then have "sqrt v \<le> b \<longleftrightarrow> sqrt v \<le> sqrt (b\<^sup>2)" by simp
  then show ?thesis by (simp only: real_sqrt_le_iff)
qed

lemma sqrt_less_bound: "0 \<le> b \<Longrightarrow> sqrt v < b \<longleftrightarrow> v < b\<^sup>2"
proof -
  assume b: "0 \<le> b"
  then have "sqrt (b\<^sup>2) = b" by simp
  then have "sqrt v < b \<longleftrightarrow> sqrt v < sqrt (b\<^sup>2)" by simp
  then show ?thesis by (simp only: real_sqrt_less_iff)
qed

lemma sqrt_le_10: "sqrt v \<le> 10 \<longleftrightarrow> v \<le> 100"
  using sqrt_le_bound [of 10 v] by simp

lemma sqrt_less_5: "sqrt v < 5 \<longleftrightarrow> v < 25"
  using sqrt_less_bound [of 5 v] by simp

lemma Circle_init_attrs:
  "s_center_x (Circle_init cx cy x2 y2 c w st) = Some cx"
  "s_center_y (Circle_init cx cy x2 y2 c w st) = Some cy"
  "s_radius (Circle_init cx cy x2 y2 c w st) = Some (sqrt ((x2 - cx)\<^sup>2 + (y2 - cy)\<^sup>2))"
  "s_class (Circle_init cx cy x2 y2 c w st) = Circle"
  by (simp_all add: Circle_init_def Shape_init_def)

lemma Rectangle_init_attrs:
  "s_x1 (Rectangle_init x1 y1 x2 y2 c w st) = Some (min x1 x2)"
  "s_y1 (Rectangle_init x1 y1 x2 y2 c w st) = Some (min y1 y2)"
  "s_x2 (Rectangle_init x1 y1 x2 y2 c w st) = Some (max x1 x2)"
  "s_y2 (Rectangle_init x1 y1 x2 y2 c w st) = Some (max y1 y2)"
  "s_points (Rectangle_init x1 y1 x2 y2 c w st) =
     [(min x1 x2, min y1 y2), (max x1 x2, min y1 y2), (max x1 x2, max y1 y2), (min x1 x2, max y1 y2)]"
  "s_class (Rectangle_init x1 y1 x2 y2 c w st) = Rectangle"
  by (simp_all add: Rectangle_init_def Shape_init_def)

lemma Rectangle_init_style:
  "s_color (Rectangle_init x1 y1 x2 y2 c w st) = c"
  "s_width (Rectangle_init x1 y1 x2 y2 c w st) = w"
  "s_style (Rectangle_init x1 y1 x2 y2 c w st) = st"
  by (simp_all add: Rectangle_init_def Shape_init_def)

section \<open>Bounding-box containment\<close>

text \<open>
  Claim C9. Bounding-box containment is monotone in the threshold: for every bounding box,
  every point \<open>p\<close> and thresholds \<open>t1 \<le> t2\<close>, if \<open>contains_point(p, t1)\<close> is true then
  \<open>contains_point(p, t2)\<close> is true. The claim assumes a box with \<open>min \<le> max\<close>
  component-wise; the property holds for every box, so the theorem does not need that
  assumption.
\<close>

theorem contains_point_mono:
  assumes "t1 \<le> t2" and "contains_point b p t1"
  shows "contains_point b p t2"
  using assms unfolding contains_point_def Let_def
  by (auto split: if_splits)

theorem contains_point_mono_witness:
  "(5::real) \<le> 8 \<and>
   contains_point \<lparr>min_point = \<lparr>p_x = 0, p_y = 0\<rparr>, max_point = \<lparr>p_x = 10, p_y = 10\<rparr>\<rparr>
      \<lparr>p_x = 13, p_y = 14\<rparr> 5 \<and>
   contains_point \<lparr>min_point = \<lparr>p_x = 0, p_y = 0\<rparr>, max_point = \<lparr>p_x = 10, p_y = 10\<rparr>\<rparr>
      \<lparr>p_x = 13, p_y = 14\<rparr> 8"
proof -
  have le: "(5::real) \<le> 8" by simp
  have "sqrt 25 = sqrt (5\<^sup>2)" by simp
  then have s25: "sqrt 25 = 5" by (simp del: power2_eq_square)
  have c: "contains_point \<lparr>min_point = \<lparr>p_x = 0, p_y = 0\<rparr>, max_point = \<lparr>p_x = 10, p_y = 10\<rparr>\<rparr>
      \<lparr>p_x = 13, p_y = 14\<rparr> 5"
    by (simp add: contains_point_def Let_def s25)
  from contains_point_mono [OF le c] le c show ?thesis by simp
qed

section \<open>Horizontal lines stay horizontal\<close>

text \<open>No call on the overlay writes any field of an annotation but its selection flag.\<close>

lemma ann_heap_move: "ann_heap (move st a dx dy) = ann_heap st"
  by (simp add: move_def Let_def split: annotation_fields.splits)

lemma ann_heap_move_selected_aux: "ann_heap (fold (\<lambda>a s. move s a dx dy) xs st) = ann_heap st"
  by (induction xs arbitrary: st) (simp_all add: ann_heap_move)

lemma an_fields_set_is_selected: "an_fields (set_is_selected b v h a) = an_fields (h a)"
  by (simp add: set_is_selected_def)

lemma an_fields_fold_clear:
  "an_fields (fold (\<lambda>a h. set_is_selected a False h) xs h a) = an_fields (h a)"
  by (induction xs arbitrary: h) (simp_all add: an_fields_set_is_selected)

lemma an_fields_clear_selection: "an_fields (ann_heap (clear_selection st) a) = an_fields (ann_heap st a)"
  by (simp add: clear_selection_def an_fields_fold_clear)

lemma an_fields_select_first:
  "an_fields (ann_heap (select_first st p xs) a) = an_fields (ann_heap st a)"
  by (induction xs) (simp_all add: an_fields_set_is_selected)

lemma an_fields_select_multiple_aux:
  "an_fields (ann_heap (fold (\<lambda>point s. select_first s point (rev (annotations s))) ps st) a)
     = an_fields (ann_heap st a)"
  by (induction ps arbitrary: st) (simp_all add: an_fields_select_first)

lemma an_fields_run_op: "an_fields (ann_heap (run_op op st) a) = an_fields (ann_heap st a)"
proof (cases op)
  case (SelectAnnotation p c)
  then show ?thesis
    by (simp add: select_annotation_def Let_def an_fields_set_is_selected an_fields_clear_selection
        split: option.splits)
next
  case (SelectMultiple ps c)
  then show ?thesis
    by (simp add: select_multiple_def an_fields_select_multiple_aux an_fields_clear_selection)
qed (simp_all add: ann_heap_move move_selected_def ann_heap_move_selected_aux add_annotation_def
      remove_annotation_def Let_def an_fields_clear_selection)

lemma an_fields_run_ops: "an_fields (ann_heap (run_ops ops st) a) = an_fields (ann_heap st a)"
  unfolding run_ops_def by (induction ops arbitrary: st) (simp_all add: an_fields_run_op)

lemma move_horizontal:
  assumes "an_fields (ann_heap st a) = LineAnnotation s e True"
  shows "p_y (point_heap (move st a dx dy) e) = p_y (point_heap (move st a dx dy) s)"
  using assms by (simp add: move_def Let_def add_x_def add_y_def)

text \<open>
  Claim C8. For every line annotation created with \<open>|start.y - end.y| < 2\<close> (so
  \<open>is_horizontal\<close> is set at creation), every subsequent \<open>move(dx, dy)\<close>, for any
  \<open>dx\<close> and \<open>dy\<close>, leaves the line horizontal: after the move \<open>end.y == start.y\<close>; and
  the flag \<open>is_horizontal\<close> never changes over the lifetime of the line. Here \<open>ops\<close> is
  any sequence of calls made on the overlay after the line was created (moves of this or
  other annotations, which may share its points, and calls of the manager).
\<close>

theorem horizontal_line_stays_horizontal:
  assumes "ann_heap st a = LineAnnotation_init (point_heap st) s e color width"
    and "\<bar>p_y (point_heap st s) - p_y (point_heap st e)\<bar> < 2"
  shows "is_horizontal (an_fields (ann_heap (run_ops ops st) a)) \<and>
         (let st' = move (run_ops ops st) a dx dy in
            p_y (point_heap st' e) = p_y (point_heap st' s) \<and>
            is_horizontal (an_fields (ann_heap st' a)))"
proof -
  from assms have f0: "an_fields (ann_heap st a) = LineAnnotation s e True"
    by (simp add: LineAnnotation_init_def)
  then have f1: "an_fields (ann_heap (run_ops ops st) a) = LineAnnotation s e True"
    by (simp add: an_fields_run_ops)
  from move_horizontal [OF f1] f1 show ?thesis
    by (simp add: Let_def ann_heap_move)
qed

theorem horizontal_line_stays_horizontal_witness:
  "ann_heap guide_line_state 0 = LineAnnotation_init (point_heap guide_line_state) 0 1 ''black'' 1 \<and>
   \<bar>p_y (point_heap guide_line_state 0) - p_y (point_heap guide_line_state 1)\<bar> < 2 \<and>
   is_horizontal (an_fields (ann_heap (run_ops [Move 0 5 7, ClearSelection] guide_line_state) 0)) \<and>
   (let st' = move (run_ops [Move 0 5 7, ClearSelection] guide_line_state) 0 3 4 in
      p_y (point_heap st' 1) = p_y (point_heap st' 0) \<and>
      is_horizontal (an_fields (ann_heap st' 0)))"
proof -
  have h1: "ann_heap guide_line_state 0 =
      LineAnnotation_init (point_heap guide_line_state) 0 1 ''black'' 1"
    by (simp add: guide_line_state_def)
  have h2: "\<bar>p_y (point_heap guide_line_state 0) - p_y (point_heap guide_line_state 1)\<bar> < 2"
    by (simp add: guide_line_state_def guide_points_def)
  from horizontal_line_stays_horizontal [OF h1 h2, of "[Move 0 5 7, ClearSelection]" 3 4] h1 h2
  show ?thesis by blast
qed

section \<open>Selection flags of the AnnotationManager\<close>

lemma fold_clear_flags:
  "fold (\<lambda>a h. set_is_selected a False h) xs h b =
     (if b \<in> set xs then (h b)\<lparr>is_selected := False\<rparr> else h b)"
  by (induction xs arbitrary: h) (auto simp: set_is_selected_def)

lemma synced_clear_selection:
  "selection_synced st \<Longrightarrow> selection_synced (clear_selection st)"
  by (auto simp: selection_synced_def clear_selection_def fold_clear_flags)

lemma clear_selection_simps:
  "annotations (clear_selection st) = annotations st"
  "selected_annotations (clear_selection st) = []"
  by (simp_all add: clear_selection_def)

lemma synced_append:
  assumes "selection_synced st" and "t \<notin> set (selected_annotations st)"
  shows "selection_synced (st\<lparr>selected_annotations := selected_annotations st @ [t],
                             ann_heap := set_is_selected t True (ann_heap st)\<rparr>)"
  using assms by (auto simp: selection_synced_def set_is_selected_def)

lemma synced_toggle_off:
  assumes "selection_synced st"
  shows "selection_synced (st\<lparr>selected_annotations := remove1 t (selected_annotations st),
                             ann_heap := set_is_selected t False (ann_heap st)\<rparr>)"
  using assms by (auto simp: selection_synced_def set_is_selected_def)

lemma synced_select_first:
  "selection_synced st \<Longrightarrow> selection_synced (select_first st p xs)"
  by (induction xs) (simp_all add: synced_append)

lemma synced_select_multiple_aux:
  "selection_synced st \<Longrightarrow>
   selection_synced (fold (\<lambda>point s. select_first s point (rev (annotations s))) ps st)"
  by (induction ps arbitrary: st) (simp_all add: synced_select_first)

lemma synced_select_multiple:
  "selection_synced st \<Longrightarrow> selection_synced (select_multiple st ps c)"
  by (simp add: select_multiple_def synced_select_multiple_aux synced_clear_selection)

lemma synced_select_annotation:
  assumes "selection_synced st"
  shows "selection_synced (fst (select_annotation st p c))"
proof (cases "find_target st p (rev (annotations st)) None None")
  case None
  with assms show ?thesis
    by (simp add: select_annotation_def synced_clear_selection)
next
  case (Some t)
  show ?thesis
  proof (cases c)
    case True
    with Some assms show ?thesis
      by (simp add: select_annotation_def synced_append synced_toggle_off)
  next
    case False
    have "selection_synced (clear_selection st)" using assms by (rule synced_clear_selection)
    from synced_append [OF this, of t] False Some show ?thesis
      by (simp add: select_annotation_def Let_def clear_selection_simps)
  qed
qed

lemma count_list_pos: "a \<in> set xs \<Longrightarrow> 0 < count_list xs a"
  by (induction xs) auto

lemma in_remove1_count: "a \<in> set (remove1 a xs) \<Longrightarrow> 1 < count_list xs a"
  by (induction xs) (auto simp: count_list_pos split: if_splits)

lemma remove_annotation_eq:
  "a \<in> set (annotations st) \<Longrightarrow>
   remove_annotation st a =
     st\<lparr>annotations := remove1 a (annotations st),
        selected_annotations := remove1 a (selected_annotations st)\<rparr>"
  by (simp add: remove_annotation_def Let_def remove1_idem)

lemma synced_remove_annotation:
  assumes syn: "selection_synced st" and once: "count_list (annotations st) a \<le> 1"
  shows "selection_synced (remove_annotation st a)"
proof (cases "a \<in> set (annotations st)")
  case False
  then show ?thesis using syn by (simp add: remove_annotation_def)
next
  case True
  have notin: "a \<notin> set (remove1 a (annotations st))"
    using in_remove1_count [of a "annotations st"] once by auto
  have flags: "is_selected (ann_heap st b) = (b \<in> set (remove1 a (selected_annotations st)))"
    if b: "b \<in> set (remove1 a (annotations st))" for b
  proof -
    from b notin have ne: "b \<noteq> a" by blast
    from b have "b \<in> set (annotations st)" using set_remove1_subset [of a "annotations st"] by blast
    with syn have "is_selected (ann_heap st b) = (b \<in> set (selected_annotations st))"
      by (simp add: selection_synced_def)
    with ne show ?thesis by (simp add: in_set_remove1)
  qed
  have "distinct (remove1 a (selected_annotations st))"
    using syn by (simp add: selection_synced_def)
  with flags show ?thesis
    by (simp add: remove_annotation_eq [OF True] selection_synced_def)
qed

text \<open>The state with a twice-added annotation is reached by calls of the manager.\<close>

lemma twice_added_reached:
  "fst (select_annotation
          (add_annotation
            (add_annotation
              (AnnotationManager_init corner_points_store (\<lambda>_. RectangleAnnotation_init 0 1 ''black'' 1)) 0) 0)
          \<lparr>p_x = 5, p_y = 5\<rparr> False) = twice_added_state"
  by (simp add: select_annotation_def add_annotation_def AnnotationManager_init_def
      annotation_contains_point_def get_bounding_box_def contains_point_def
      RectangleAnnotation_init_def corner_points_store_def clear_selection_def
      set_is_selected_def twice_added_state_def Let_def)

text \<open>
  Claim C10, as stated: starting from a state where every annotation in the collection has
  \<open>is_selected\<close> true exactly when it is in the selected list (and that list has no
  duplicates), each of \<open>select_annotation\<close>, \<open>select_multiple\<close>, \<open>clear_selection\<close>
  and \<open>remove_annotation\<close> preserves this. It fails for \<open>remove_annotation\<close> when the
  collection holds the removed annotation twice: one occurrence stays in the collection,
  with its flag still set, while the annotation has left the selected list.
\<close>

theorem remove_annotation_breaks_sync:
  "selection_synced twice_added_state \<and>
   \<not> selection_synced (remove_annotation twice_added_state 0)"
  by (simp add: selection_synced_def twice_added_state_def remove_annotation_def Let_def)

text \<open>
  Claim C10, amended: from a synchronized state, \<open>select_annotation\<close>,
  \<open>select_multiple\<close> and \<open>clear_selection\<close> lead to a synchronized state, and so does
  \<open>remove_annotation(a)\<close> provided the collection holds \<open>a\<close> at most once.
\<close>

theorem selection_sync_preserved:
  assumes "selection_synced st"
  shows "selection_synced (fst (select_annotation st p ctrl)) \<and>
         selection_synced (select_multiple st ps ctrl') \<and>
         selection_synced (clear_selection st) \<and>
         (count_list (annotations st) a \<le> 1 \<longrightarrow> selection_synced (remove_annotation st a))"
  using assms
  by (simp add: synced_select_annotation synced_select_multiple synced_clear_selection
      synced_remove_annotation)

theorem selection_sync_preserved_witness:
  "selection_synced two_rect_state \<and>
   count_list (annotations two_rect_state) 1 \<le> 1 \<and>
   selection_synced (fst (select_annotation two_rect_state \<lparr>p_x = 5, p_y = 5\<rparr> True)) \<and>
   selection_synced (select_multiple two_rect_state [\<lparr>p_x = 5, p_y = 5\<rparr>] False) \<and>
   selection_synced (clear_selection two_rect_state) \<and>
   selection_synced (remove_annotation two_rect_state 1)"
proof -
  have h: "selection_synced two_rect_state"
    by (simp add: selection_synced_def two_rect_state_def RectangleAnnotation_init_def)
  have c: "count_list (annotations two_rect_state) 1 \<le> 1"
    by (simp add: two_rect_state_def)
  from selection_sync_preserved [OF h, of "\<lparr>p_x = 5, p_y = 5\<rparr>" True "[\<lparr>p_x = 5, p_y = 5\<rparr>]" False 1] h c
  show ?thesis by blast
qed

section \<open>What a rectangle stores\<close>

text \<open>
  Claim C5, as stated: a Rectangle constructed from two opposite corner points stores the
  raw input corners unchanged. The constructor of the canvas's \<open>Rectangle\<close> stores the
  minimum and the maximum of each coordinate instead: built from \<open>(200, 200)\<close> and
  \<open>(100, 100)\<close> it stores \<open>(100, 100)\<close> and \<open>(200, 200)\<close>.
\<close>

theorem Rectangle_init_not_raw:
  "s_x1 (Rectangle_init 200 200 100 100 ''black'' 1 None) = Some 100 \<and>
   s_y1 (Rectangle_init 200 200 100 100 ''black'' 1 None) = Some 100 \<and>
   s_x2 (Rectangle_init 200 200 100 100 ''black'' 1 None) = Some 200 \<and>
   s_y2 (Rectangle_init 200 200 100 100 ''black'' 1 None) = Some 200 \<and>
   \<not> (s_x1 (Rectangle_init 200 200 100 100 ''black'' 1 None) = Some 200 \<and>
      s_y1 (Rectangle_init 200 200 100 100 ''black'' 1 None) = Some 200 \<and>
      s_x2 (Rectangle_init 200 200 100 100 ''black'' 1 None) = Some 100 \<and>
      s_y2 (Rectangle_init 200 200 100 100 ''black'' 1 None) = Some 100)"
  by (simp add: Rectangle_init_attrs)

text \<open>
  Claim C5, amended: the \<open>Rectangle\<close> of the drawing canvas stores the normalized corners,
  \<open>x1 = min\<close>, \<open>y1 = min\<close>, \<open>x2 = max\<close>, \<open>y2 = max\<close> of the two inputs. It is the
  \<open>RectangleAnnotation\<close> of the PDF overlay that keeps the two given points as they are,
  and its bounding box is the normalized min/max of the two.
\<close>

theorem Rectangle_corners:
  "s_x1 (Rectangle_init x1 y1 x2 y2 c w st) = Some (min x1 x2) \<and>
   s_y1 (Rectangle_init x1 y1 x2 y2 c w st) = Some (min y1 y2) \<and>
   s_x2 (Rectangle_init x1 y1 x2 y2 c w st) = Some (max x1 x2) \<and>
   s_y2 (Rectangle_init x1 y1 x2 y2 c w st) = Some (max y1 y2) \<and>
   an_fields (RectangleAnnotation_init s e c' w') = RectangleAnnotation s e \<and>
   get_bounding_box (st'\<lparr>ann_heap := (ann_heap st')(a := RectangleAnnotation_init s e c' w')\<rparr>) a =
     \<lparr>min_point = \<lparr>p_x = min (p_x (point_heap st' s)) (p_x (point_heap st' e)),
                   p_y = min (p_y (point_heap st' s)) (p_y (point_heap st' e))\<rparr>,
      max_point = \<lparr>p_x = max (p_x (point_heap st' s)) (p_x (point_heap st' e)),
                   p_y = max (p_y (point_heap st' s)) (p_y (point_heap st' e))\<rparr>\<rparr>"
  by (simp add: Rectangle_init_attrs RectangleAnnotation_init_def get_bounding_box_def Let_def)

section \<open>Tangent circles\<close>

text \<open>The scenario of the specification: centres \<open>(200, 200)\<close> and \<open>(300, 200)\<close>, both
  of radius 50, touch from outside in \<open>(250, 200)\<close>.\<close>

lemma tangent_scenario:
  "get_circle_circle_intersection (Circle_init 200 200 250 200 ''black'' 1 None)
       (Circle_init 300 200 350 200 ''black'' 1 None) = Some [(250, 200)]"
  by (simp add: get_circle_circle_intersection_def Circle_init_attrs sqrt_2500 sqrt_10000 Let_def)

text \<open>Circles that touch from outside (\<open>d = r1 + r2 > 0\<close>), in exact arithmetic: the
  one point of the tangent branch is at distance \<open>r1\<close> from the first centre and \<open>r2\<close>
  from the second.\<close>

lemma scaled_distance:
  fixes t :: real
  shows "sqrt ((t * a)\<^sup>2 + (t * b)\<^sup>2) = \<bar>t\<bar> * sqrt (a\<^sup>2 + b\<^sup>2)"
proof -
  have "(t * a)\<^sup>2 + (t * b)\<^sup>2 = t\<^sup>2 * (a\<^sup>2 + b\<^sup>2)"
    by (simp add: power_mult_distrib distrib_left)
  then show ?thesis by (simp add: real_sqrt_mult)
qed

lemma tangent_outside_on_both:
  assumes attrs: "s_center_x c1 = Some x1" "s_center_y c1 = Some y1" "s_radius c1 = Some r1"
      "s_center_x c2 = Some x2" "s_center_y c2 = Some y2" "s_radius c2 = Some r2"
    and touch: "sqrt ((x2 - x1)\<^sup>2 + (y2 - y1)\<^sup>2) = r1 + r2"
    and pos: "0 \<le> r1" "0 \<le> r2" "0 < r1 + r2"
  shows "\<exists>p. get_circle_circle_intersection c1 c2 = Some [p] \<and>
             pointer_distance x1 y1 p = r1 \<and> pointer_distance x2 y2 p = r2"
proof -
  define d where "d = r1 + r2"
  define t where "t = r1 / d"
  define p where "p = (x1 + t * (x2 - x1), y1 + t * (y2 - y1))"
  have d: "sqrt ((x2 - x1)\<^sup>2 + (y2 - y1)\<^sup>2) = d" "0 < d" using touch pos by (simp_all add: d_def)
  have t: "0 \<le> t" "t \<le> 1" "t * d = r1" "(1 - t) * d = r2"
    using pos d(2) by (simp_all add: t_def d_def field_simps)
  have res: "get_circle_circle_intersection c1 c2 = Some [p]"
    using pos d(2)
    by (simp add: get_circle_circle_intersection_def attrs touch Let_def p_def t_def d_def)
  have "pointer_distance x1 y1 p = sqrt ((t * (x1 - x2))\<^sup>2 + (t * (y1 - y2))\<^sup>2)"
    by (simp add: pointer_distance_def p_def algebra_simps)
  also have "\<dots> = \<bar>t\<bar> * sqrt ((x1 - x2)\<^sup>2 + (y1 - y2)\<^sup>2)" by (rule scaled_distance)
  also have "sqrt ((x1 - x2)\<^sup>2 + (y1 - y2)\<^sup>2) = d"
    using d(1) by (simp add: power2_commute)
  finally have one: "pointer_distance x1 y1 p = r1" using t by simp
  have "pointer_distance x2 y2 p = sqrt (((1 - t) * (x2 - x1))\<^sup>2 + ((1 - t) * (y2 - y1))\<^sup>2)"
    by (simp add: pointer_distance_def p_def algebra_simps)
  also have "\<dots> = \<bar>1 - t\<bar> * sqrt ((x2 - x1)\<^sup>2 + (y2 - y1)\<^sup>2)" by (rule scaled_distance)
  finally have two: "pointer_distance x2 y2 p = r2" using t d(1) by simp
  from res one two show ?thesis by blast
qed

text \<open>
  Claim C6: when the distance of the centres is \<open>r1 + r2\<close> or \<open>|r1 - r2|\<close>, the one point
  returned lies on both circles. The code computes \<open>centre1 + (r1 / d) * (centre2 - centre1)\<close>
  in both cases. When the first circle touches the second from inside (\<open>r1 < r2\<close>) that
  point is on the first circle only: for the circle of radius 1 around \<open>(0, 0)\<close> and the
  circle of radius 3 around \<open>(2, 0)\<close> it returns \<open>(1, 0)\<close>, at distance 1 from the second
  centre; the circles touch in \<open>(-1, 0)\<close>.
\<close>

theorem tangent_inside_smaller_first:
  "get_circle_circle_intersection (Circle_init 0 0 1 0 ''black'' 1 None)
       (Circle_init 2 0 5 0 ''black'' 1 None) = Some [(1, 0)] \<and>
   s_center_x (Circle_init 2 0 5 0 ''black'' 1 None) = Some 2 \<and>
   s_center_y (Circle_init 2 0 5 0 ''black'' 1 None) = Some 0 \<and>
   s_radius (Circle_init 2 0 5 0 ''black'' 1 None) = Some 3 \<and>
   sqrt ((1 - 2)\<^sup>2 + (0 - 0)\<^sup>2) \<noteq> (3::real)"
  by (simp add: get_circle_circle_intersection_def Circle_init_attrs sqrt_9 Let_def)

section \<open>A rejected resize step\<close>

lemma assign_each_idem:
  assumes "\<And>s. f (f s) = f s"
  shows "assign_each f rs h r = (if r \<in> set rs then f (h r) else h r)"
  unfolding assign_each_def
proof (induction rs arbitrary: h)
  case Nil
  then show ?case by simp
next
  case (Cons a rs)
  let ?g = "\<lambda>r h'. h'(r := f (h' r))"
  have "fold ?g (a # rs) h r = fold ?g rs (h(a := f (h a))) r" by simp
  also have "\<dots> = (if r \<in> set rs then f ((h(a := f (h a))) r) else (h(a := f (h a))) r)"
    by (rule Cons.IH)
  also have "\<dots> = (if r \<in> set (a # rs) then f (h r) else h r)"
    by (simp add: assms)
  finally show ?case .
qed

lemma apply_handle_first:
  assumes "first \<in> set sel"
  shows "apply_handle handle sx sy sel h first =
     (h first)\<lparr>s_y1 := (if CHR ''n'' \<in> set handle then Some sy else s_y1 (h first)),
               s_y2 := (if CHR ''s'' \<in> set handle then Some sy else s_y2 (h first)),
               s_x1 := (if CHR ''w'' \<in> set handle then Some sx else s_x1 (h first)),
               s_x2 := (if CHR ''e'' \<in> set handle then Some sx else s_x2 (h first))\<rparr>"
  using assms by (simp add: apply_handle_def Let_def assign_each_idem)

lemma apply_handle_other:
  assumes "r \<notin> set sel"
  shows "apply_handle handle sx sy sel h r = h r"
  using assms by (simp add: apply_handle_def Let_def assign_each_idem)

text \<open>
  The first selected rectangle is the one \<open>resize_shape\<close> saves and measures. For it a
  rejected step is a roll-back: if, after the coordinates the handle names were overwritten
  with the snapped pointer \<open>(sx, sy)\<close>, its width \<open>|x2 - x1|\<close> or its height
  \<open>|y2 - y1|\<close> is below \<open>MIN_SIZE\<close>, then the object is as before the step, and so are
  the objects outside the selection and every other field of the canvas. With a single
  selected shape the whole state is unchanged.
\<close>

lemma rejected_resize_restores:
  assumes sel: "selected_shapes c = first # rest"
    and x1: "s_x1 (heap c first) = Some ox1" and y1: "s_y1 (heap c first) = Some oy1"
    and x2: "s_x2 (heap c first) = Some ox2" and y2: "s_y2 (heap c first) = Some oy2"
    and handle: "resize_handle c = Some handle"
    and snap: "get_snap_point c x y = Some (sx, sy)"
    and small:
      "\<bar>(if CHR ''e'' \<in> set handle then sx else ox2) - (if CHR ''w'' \<in> set handle then sx else ox1)\<bar> < MIN_SIZE \<or>
       \<bar>(if CHR ''s'' \<in> set handle then sy else oy2) - (if CHR ''n'' \<in> set handle then sy else oy1)\<bar> < MIN_SIZE"
  shows "\<exists>c'. resize_shape c x y = Some c' \<and>
              heap c' first = heap c first \<and>
              (\<forall>r. r \<notin> set (selected_shapes c) \<longrightarrow> heap c' r = heap c r) \<and>
              c'\<lparr>heap := heap c\<rparr> = c \<and>
              (rest = [] \<longrightarrow> c' = c)"
proof -
  let ?sel = "first # rest"
  let ?h4 = "apply_handle handle sx sy ?sel (heap c)"
  let ?restore = "\<lambda>sh. sh\<lparr>s_x1 := Some ox1, s_y1 := Some oy1, s_x2 := Some ox2, s_y2 := Some oy2\<rparr>"
  let ?h = "assign_each ?restore ?sel ?h4"
  have mem: "first \<in> set ?sel" by simp
  have h4: "?h4 first =
     (heap c first)\<lparr>s_y1 := (if CHR ''n'' \<in> set handle then Some sy else s_y1 (heap c first)),
               s_y2 := (if CHR ''s'' \<in> set handle then Some sy else s_y2 (heap c first)),
               s_x1 := (if CHR ''w'' \<in> set handle then Some sx else s_x1 (heap c first)),
               s_x2 := (if CHR ''e'' \<in> set handle then Some sx else s_x2 (heap c first))\<rparr>"
    by (rule apply_handle_first [OF mem])
  define nx1 where "nx1 = (if CHR ''w'' \<in> set handle then sx else ox1)"
  define nx2 where "nx2 = (if CHR ''e'' \<in> set handle then sx else ox2)"
  define ny1 where "ny1 = (if CHR ''n'' \<in> set handle then sy else oy1)"
  define ny2 where "ny2 = (if CHR ''s'' \<in> set handle then sy else oy2)"
  have reads: "s_x1 (?h4 first) = Some nx1" "s_x2 (?h4 first) = Some nx2"
    "s_y1 (?h4 first) = Some ny1" "s_y2 (?h4 first) = Some ny2"
    by (simp_all add: h4 x1 y1 x2 y2 nx1_def nx2_def ny1_def ny2_def)
  have small': "\<bar>nx2 - nx1\<bar> < MIN_SIZE \<or> \<bar>ny2 - ny1\<bar> < MIN_SIZE"
    using small by (simp only: nx1_def nx2_def ny1_def ny2_def)
  have res: "resize_shape c x y = Some (c\<lparr>heap := ?h\<rparr>)"
    by (simp add: resize_shape_def sel x1 y1 x2 y2 handle snap reads small' Let_def)
  have first: "?h first = heap c first"
    by (simp add: assign_each_idem h4 x1 y1 x2 y2)
  have other: "?h r = heap c r" if "r \<notin> set ?sel" for r
    using that by (simp add: assign_each_idem apply_handle_other)
  have single: "?h = heap c" if "rest = []"
  proof
    fix r
    show "?h r = heap c r"
    proof (cases "r = first")
      case True
      then show ?thesis using first by simp
    next
      case False
      then have "r \<notin> set ?sel" using that by simp
      then show ?thesis by (rule other)
    qed
  qed
  show ?thesis using res first other single by (auto simp: sel)
qed

text \<open>The restoring loop runs over the whole selection with the coordinates saved from the
  first shape: after a rejected step every selected shape stores the first shape's
  corners.\<close>

lemma rejected_resize_overwrites_selection:
  assumes sel: "selected_shapes c = first # rest"
    and x1: "s_x1 (heap c first) = Some ox1" and y1: "s_y1 (heap c first) = Some oy1"
    and x2: "s_x2 (heap c first) = Some ox2" and y2: "s_y2 (heap c first) = Some oy2"
    and handle: "resize_handle c = Some handle"
    and snap: "get_snap_point c x y = Some (sx, sy)"
    and small:
      "\<bar>(if CHR ''e'' \<in> set handle then sx else ox2) - (if CHR ''w'' \<in> set handle then sx else ox1)\<bar> < MIN_SIZE \<or>
       \<bar>(if CHR ''s'' \<in> set handle then sy else oy2) - (if CHR ''n'' \<in> set handle then sy else oy1)\<bar> < MIN_SIZE"
    and r: "r \<in> set (selected_shapes c)"
  shows "\<exists>c'. resize_shape c x y = Some c' \<and>
              stored_corners c' r = (Some ox1, Some oy1, Some ox2, Some oy2)"
proof -
  let ?sel = "first # rest"
  let ?h4 = "apply_handle handle sx sy ?sel (heap c)"
  let ?restore = "\<lambda>sh. sh\<lparr>s_x1 := Some ox1, s_y1 := Some oy1, s_x2 := Some ox2, s_y2 := Some oy2\<rparr>"
  let ?h = "assign_each ?restore ?sel ?h4"
  have mem: "first \<in> set ?sel" by simp
  have h4: "?h4 first =
     (heap c first)\<lparr>s_y1 := (if CHR ''n'' \<in> set handle then Some sy else s_y1 (heap c first)),
               s_y2 := (if CHR ''s'' \<in> set handle then Some sy else s_y2 (heap c first)),
               s_x1 := (if CHR ''w'' \<in> set handle then Some sx else s_x1 (heap c first)),
               s_x2 := (if CHR ''e'' \<in> set handle then Some sx else s_x2 (heap c first))\<rparr>"
    by (rule apply_handle_first [OF mem])
  define nx1 where "nx1 = (if CHR ''w'' \<in> set handle then sx else ox1)"
  define nx2 where "nx2 = (if CHR ''e'' \<in> set handle then sx else ox2)"
  define ny1 where "ny1 = (if CHR ''n'' \<in> set handle then sy else oy1)"
  define ny2 where "ny2 = (if CHR ''s'' \<in> set handle then sy else oy2)"
  have reads: "s_x1 (?h4 first) = Some nx1" "s_x2 (?h4 first) = Some nx2"
    "s_y1 (?h4 first) = Some ny1" "s_y2 (?h4 first) = Some ny2"
    by (simp_all add: h4 x1 y1 x2 y2 nx1_def nx2_def ny1_def ny2_def)
  have small': "\<bar>nx2 - nx1\<bar> < MIN_SIZE \<or> \<bar>ny2 - ny1\<bar> < MIN_SIZE"
    using small by (simp only: nx1_def nx2_def ny1_def ny2_def)
  have res: "resize_shape c x y = Some (c\<lparr>heap := ?h\<rparr>)"
    by (simp add: resize_shape_def sel x1 y1 x2 y2 handle snap reads small' Let_def)
  from r have r': "r \<in> set ?sel" by (simp add: sel)
  have "?h r = (if r \<in> set ?sel then ?restore (?h4 r) else ?h4 r)"
    by (rule assign_each_idem) simp
  with r' have "?h r = ?restore (?h4 r)" by simp
  then have "stored_corners (c\<lparr>heap := ?h\<rparr>) r = (Some ox1, Some oy1, Some ox2, Some oy2)"
    by (simp add: stored_corners_def)
  with res show ?thesis by blast
qed

section \<open>The resize scenario\<close>

text \<open>The events of the scenario, run on the model from the initial canvas.\<close>

lemma scenario_click1: "on_click rect_mode_canvas 100 100 = Some first_corner_canvas"
  by (simp add: on_click_def rect_mode_canvas_def first_corner_canvas_def set_mode_def DrawingCanvas_init_def get_snap_point_def snap_points_def)

lemma scenario_click2: "on_click first_corner_canvas 200 200 = Some one_rect_canvas"
  by (simp add: on_click_def rect_mode_canvas_def first_corner_canvas_def one_rect_canvas_def set_mode_def DrawingCanvas_init_def get_snap_point_def
      snap_points_def commit_shape_def new_object_def)

lemma scenario_select: "on_select one_rect_canvas 200 200 = Some rect_selected_canvas"
  by (simp add: on_select_def rect_mode_canvas_def one_rect_canvas_def rect_selected_canvas_def set_mode_def DrawingCanvas_init_def
      Rectangle_init_attrs distance_to_line_def Let_def)

lemma snap_points_rect_selected:
  "snap_points rect_selected_canvas = Some [(100, 100), (200, 100), (200, 200), (100, 200),
      (150, 100), (200, 150), (150, 200), (100, 150)]"
  by (simp add: snap_points_def rect_mode_canvas_def one_rect_canvas_def rect_selected_canvas_def set_mode_def DrawingCanvas_init_def
      shape_snap_points_def Rectangle_init_attrs midpoints_of_def Let_def upt_rec)


lemma snap_enabled_rect_selected: "snap_enabled rect_selected_canvas" 
  by (simp add: rect_mode_canvas_def one_rect_canvas_def rect_selected_canvas_def set_mode_def DrawingCanvas_init_def)

lemma snap_rect_selected_corner: "get_snap_point rect_selected_canvas 200 200 = Some (200, 200)"
  by (simp add: get_snap_point_def snap_enabled_rect_selected snap_points_rect_selected sqrt_le_10)

lemma rect_selected_fields:
  "selected_shapes rect_selected_canvas = [0]" "heap rect_selected_canvas 0 = Rectangle_init 100 100 200 200 ''black'' 1 None"
  "mode rect_selected_canvas = ''rectangle''"
  by (simp_all add: rect_mode_canvas_def one_rect_canvas_def rect_selected_canvas_def set_mode_def DrawingCanvas_init_def)

lemma handle_rect_selected: "get_resize_handle_at_point rect_selected_canvas 200 200 = Some (Some ''se'')"
  by (simp add: get_resize_handle_at_point_def get_resize_handles_def rect_selected_fields Rectangle_init_attrs)

lemma scenario_press_handle: "on_click rect_selected_canvas 200 200 = Some resizing_canvas"
  by (simp add: on_click_def snap_rect_selected_corner handle_rect_selected rect_selected_fields Rectangle_init_attrs resizing_canvas_def)

lemma snap_points_resizing: "snap_points resizing_canvas = snap_points rect_selected_canvas"
  by (simp add: snap_points_def resizing_canvas_def)

lemma snap_enabled_resizing: "snap_enabled resizing_canvas"
  by (simp add: resizing_canvas_def snap_enabled_rect_selected)

lemma snap_resizing_far: "get_snap_point resizing_canvas 50 50 = Some (50, 50)"
  by (simp add: get_snap_point_def snap_points_resizing snap_points_rect_selected sqrt_le_10 snap_enabled_resizing)

lemma resizing_fields:
  "selected_shapes resizing_canvas = [0]" "heap resizing_canvas 0 = Rectangle_init 100 100 200 200 ''black'' 1 None"
  "resize_handle resizing_canvas = Some ''se''" "is_resizing resizing_canvas" "last_x resizing_canvas = Some 200" "last_y resizing_canvas = Some 200"
  by (simp_all add: resizing_canvas_def rect_selected_fields)

lemma resize_scenario: "resize_shape resizing_canvas 50 50 = Some resized_canvas"
  by (simp add: resize_shape_def resizing_fields Rectangle_init_attrs snap_resizing_far apply_handle_def
      assign_each_def MIN_SIZE_def corner_points_def Let_def resized_canvas_def)

lemma drag_scenario:
  "on_drag resizing_canvas 50 50 = Some (resized_canvas\<lparr>last_x := Some 50, last_y := Some 50\<rparr>)"
  by (simp add: on_drag_def resizing_fields Rectangle_init_attrs resize_scenario)

lemma resized_fields:
  "heap resized_canvas 0 = (Rectangle_init 100 100 200 200 ''black'' 1 None)
          \<lparr>s_y2 := Some 50, s_x2 := Some 50,
           s_points := [(100, 100), (50, 100), (50, 50), (100, 50)]\<rparr>"
  by (simp add: resized_canvas_def)

text \<open>
  Claim C2, as stated: resizing the rectangle \<open>(100,100)-(200,200)\<close> by its \<open>se\<close> handle
  with the pointer at \<open>(50, 50)\<close> is rejected, and the stored coordinates satisfy
  \<open>x1 \<le> x2\<close> and \<open>y1 \<le> y2\<close>. The step is accepted: the rectangle changes, and it then
  stores \<open>x1 = 100 > x2 = 50\<close> and \<open>y1 = 100 > y2 = 50\<close>.
\<close>

theorem resize_past_corner_inverts:
  "resize_shape resizing_canvas 50 50 = Some resized_canvas \<and>
   heap resized_canvas 0 \<noteq> heap resizing_canvas 0 \<and>
   stored_corners resized_canvas 0 = (Some 100, Some 100, Some 50, Some 50) \<and>
   \<not> (100::real) \<le> 50"
proof -
  have "s_x2 (heap resized_canvas 0) \<noteq> s_x2 (heap resizing_canvas 0)"
    by (simp add: resized_fields resizing_fields Rectangle_init_attrs)
  then have "heap resized_canvas 0 \<noteq> heap resizing_canvas 0" by force
  then show ?thesis
    by (simp add: resize_scenario stored_corners_def resized_fields Rectangle_init_attrs)
qed

text \<open>
  Claim C2, amended: the step is accepted, because the size check measures the absolute
  width \<open>|x2 - x1|\<close> and height \<open>|y2 - y1|\<close>. Both are 50, not below \<open>MIN_SIZE = 10\<close>;
  the rectangle then stores the inverted corners \<open>(100, 100)\<close> and \<open>(50, 50)\<close> and the
  four points derived from them.
\<close>

theorem resize_past_corner_accepted:
  "resize_shape resizing_canvas 50 50 = Some resized_canvas \<and>
   stored_corners resized_canvas 0 = (Some 100, Some 100, Some 50, Some 50) \<and>
   s_points (heap resized_canvas 0) = [(100, 100), (50, 100), (50, 50), (100, 50)] \<and>
   measured_size resized_canvas 0 = Some (50, 50) \<and>
   MIN_SIZE \<le> 50"
  by (simp add: resize_scenario stored_corners_def measured_size_def resized_fields
      Rectangle_init_attrs MIN_SIZE_def)

text \<open>A rejected step on the same rectangle, selected alone: the pointer dragged to
  \<open>(105, 130)\<close>; no candidate is within 10 pixels, the width would be 5.\<close>

lemma snap_resizing_near: "get_snap_point resizing_canvas 105 130 = Some (105, 130)"
  by (simp add: get_snap_point_def snap_points_resizing snap_points_rect_selected sqrt_le_10 snap_enabled_resizing)

lemma rejected_resize_single_selection:
  "resize_shape resizing_canvas 105 130 = Some resizing_canvas"
proof -
  have sel: "selected_shapes resizing_canvas = 0 # []" by (simp add: resizing_fields)
  have x1: "s_x1 (heap resizing_canvas 0) = Some 100" by (simp add: resizing_fields Rectangle_init_attrs)
  have y1: "s_y1 (heap resizing_canvas 0) = Some 100" by (simp add: resizing_fields Rectangle_init_attrs)
  have x2: "s_x2 (heap resizing_canvas 0) = Some 200" by (simp add: resizing_fields Rectangle_init_attrs)
  have y2: "s_y2 (heap resizing_canvas 0) = Some 200" by (simp add: resizing_fields Rectangle_init_attrs)
  have h: "resize_handle resizing_canvas = Some ''se''" by (simp add: resizing_fields)
  have small:
    "\<bar>(if CHR ''e'' \<in> set ''se'' then 105 else 200) - (if CHR ''w'' \<in> set ''se'' then 105 else 100)\<bar> < MIN_SIZE \<or>
     \<bar>(if CHR ''s'' \<in> set ''se'' then 130 else 200) - (if CHR ''n'' \<in> set ''se'' then 130 else 100)\<bar> < MIN_SIZE"
    by (simp add: MIN_SIZE_def)
  from rejected_resize_restores [OF sel x1 y1 x2 y2 h snap_resizing_near small]
  show ?thesis by auto
qed

section \<open>A rejected resize step with two rectangles selected\<close>

text \<open>The events of the scenario, run on the model: the second rectangle is drawn, Ctrl+A
  selects both, the press on the \<open>se\<close> handle of the first starts the resize.\<close>

lemmas rect_canvas_defs = one_rect_canvas_def rect_mode_canvas_def set_mode_def DrawingCanvas_init_def

lemma snap_points_one_rect:
  "snap_points one_rect_canvas = Some [(100, 100), (200, 100), (200, 200), (100, 200),
      (150, 100), (200, 150), (150, 200), (100, 150)]"
  by (simp add: snap_points_def rect_canvas_defs shape_snap_points_def Rectangle_init_attrs
      midpoints_of_def Let_def upt_rec)

lemma one_rect_flags: "snap_enabled one_rect_canvas" "mode one_rect_canvas = ''rectangle''"
  "selected_shapes one_rect_canvas = []" "current_points one_rect_canvas = []"
  by (simp_all add: rect_canvas_defs)

lemma two_click1: "on_click one_rect_canvas 300 300 = Some second_corner_canvas"
  by (simp add: on_click_def get_snap_point_def one_rect_flags snap_points_one_rect sqrt_le_10
      second_corner_canvas_def)

lemma snap_points_second: "snap_points second_corner_canvas = snap_points one_rect_canvas"
  by (simp add: snap_points_def second_corner_canvas_def)

lemma second_flags: "snap_enabled second_corner_canvas"
  by (simp add: second_corner_canvas_def one_rect_flags)

lemma snap_second_far: "get_snap_point second_corner_canvas 400 400 = Some (400, 400)"
  by (simp add: get_snap_point_def second_flags snap_points_second snap_points_one_rect sqrt_le_10)

lemma two_click2: "on_click second_corner_canvas 400 400 = Some two_rect_canvas"
proof -
  have f: "selected_shapes second_corner_canvas = []" "mode second_corner_canvas = ''rectangle''"
    "current_points second_corner_canvas = [(300, 300)]"
    by (simp_all add: second_corner_canvas_def one_rect_flags)
  show ?thesis
    by (simp add: on_click_def snap_second_far f)
       (simp add: second_corner_canvas_def rect_canvas_defs commit_shape_def new_object_def
        two_rect_canvas_def rect_A_def rect_B_def numeral_2_eq_2)
qed

lemma two_select_all: "select_all two_rect_canvas = both_selected_canvas"
  by (simp add: select_all_def two_rect_canvas_def both_selected_canvas_def assign_each_def
      rect_mode_canvas_def set_mode_def DrawingCanvas_init_def Let_def fun_upd_twist)


lemma rect_AB_attrs:
  "s_x1 rect_A = Some 100" "s_y1 rect_A = Some 100" "s_x2 rect_A = Some 200" "s_y2 rect_A = Some 200"
  "s_x1 rect_B = Some 300" "s_y1 rect_B = Some 300" "s_x2 rect_B = Some 400" "s_y2 rect_B = Some 400"
  "s_class rect_A = Rectangle" "s_class rect_B = Rectangle"
  "s_points rect_A = [(100, 100), (200, 100), (200, 200), (100, 200)]"
  "s_points rect_B = [(300, 300), (400, 300), (400, 400), (300, 400)]"
  by (simp_all add: rect_A_def rect_B_def Rectangle_init_attrs)

lemma both_selected_fields:
  "shapes both_selected_canvas = [0, 1]" "selected_shapes both_selected_canvas = [0, 1]"
  "heap both_selected_canvas 0 = rect_A\<lparr>s_is_selected := Some True\<rparr>"
  "heap both_selected_canvas 1 = rect_B\<lparr>s_is_selected := Some True\<rparr>"
  "heap both_selected_canvas (Suc 0) = rect_B\<lparr>s_is_selected := Some True\<rparr>"
  "snap_enabled both_selected_canvas" "snap_endpoint both_selected_canvas"
  "snap_midpoint both_selected_canvas" "snap_intersection both_selected_canvas"
  "mode both_selected_canvas = ''rectangle''"
  by (simp_all add: both_selected_canvas_def two_rect_canvas_def rect_mode_canvas_def set_mode_def
      DrawingCanvas_init_def)

lemma no_crossing: "get_intersection_points (rect_A\<lparr>s_is_selected := Some True\<rparr>)
    (rect_B\<lparr>s_is_selected := Some True\<rparr>) = Some []"
  by (simp add: get_intersection_points_def get_shape_lines_def rect_AB_attrs
      get_line_line_intersection_def Let_def upt_rec)

lemma snap_points_both:
  "snap_points both_selected_canvas = Some [(100, 100), (200, 100), (200, 200), (100, 200),
      (150, 100), (200, 150), (150, 200), (100, 150),
      (300, 300), (400, 300), (400, 400), (300, 400),
      (350, 300), (400, 350), (350, 400), (300, 350)]"
  by (simp add: snap_points_def both_selected_fields shape_snap_points_def rect_AB_attrs
      midpoints_of_def Let_def upt_rec no_crossing)

lemma snap_both_corner: "get_snap_point both_selected_canvas 200 200 = Some (200, 200)"
  by (simp add: get_snap_point_def both_selected_fields snap_points_both sqrt_le_10)

lemma both_press_handle: "on_click both_selected_canvas 200 200 = Some both_resizing_canvas"
  by (simp add: on_click_def snap_both_corner both_selected_fields rect_AB_attrs
      get_resize_handle_at_point_def get_resize_handles_def both_resizing_canvas_def)

lemma both_resizing_fields:
  "selected_shapes both_resizing_canvas = [0, 1]"
  "heap both_resizing_canvas 0 = rect_A\<lparr>s_is_selected := Some True\<rparr>"
  "heap both_resizing_canvas 1 = rect_B\<lparr>s_is_selected := Some True\<rparr>"
  "heap both_resizing_canvas (Suc 0) = rect_B\<lparr>s_is_selected := Some True\<rparr>"
  "resize_handle both_resizing_canvas = Some ''se''" "is_resizing both_resizing_canvas"
  "last_x both_resizing_canvas = Some 200" "last_y both_resizing_canvas = Some 200"
  "snap_enabled both_resizing_canvas"
  "heap both_resizing_canvas = heap both_selected_canvas"
  by (simp_all add: both_resizing_canvas_def both_selected_fields)

lemma snap_points_both_resizing: "snap_points both_resizing_canvas = snap_points both_selected_canvas"
  by (simp add: snap_points_def both_resizing_canvas_def)

lemma snap_both_near: "get_snap_point both_resizing_canvas 105 130 = Some (105, 130)"
  by (simp add: get_snap_point_def both_resizing_fields snap_points_both_resizing snap_points_both sqrt_le_10)

lemma both_rejected: "resize_shape both_resizing_canvas 105 130 = Some both_rejected_canvas"
  by (simp add: resize_shape_def both_resizing_fields(1-9) rect_AB_attrs snap_both_near apply_handle_def
      assign_each_def MIN_SIZE_def Let_def)
     (simp add: both_rejected_canvas_def both_resizing_canvas_def both_selected_canvas_def
      two_rect_canvas_def fun_upd_twist rect_A_def Rectangle_init_def Shape_init_def)

lemma both_drag: "on_drag both_resizing_canvas 105 130 =
    Some (both_rejected_canvas\<lparr>last_x := Some 105, last_y := Some 130\<rparr>)"
  by (simp add: on_drag_def both_resizing_fields(1-9) rect_AB_attrs both_rejected)

text \<open>
  Claim C3. A rejected resize step restores every coordinate \<open>x1\<close>, \<open>y1\<close>, \<open>x2\<close>,
  \<open>y2\<close> of a selected rectangle to its value before the step. The program does so for the
  first selected rectangle only. Here two rectangles, \<open>(100, 100)-(200, 200)\<close> and
  \<open>(300, 300)-(400, 400)\<close>, are drawn and selected with Ctrl+A, the \<open>se\<close> handle of the
  first is pressed at \<open>(200, 200)\<close> and dragged to \<open>(105, 130)\<close>. No snap candidate is
  within 10 pixels and the width of the first would be \<open>5 < MIN_SIZE\<close>, so the step is
  rejected. The first rectangle keeps its corners; the second, which stored
  \<open>(300, 300, 400, 400)\<close> before the step, stores the corners \<open>(100, 100, 200, 200)\<close> of
  the first after it: the restoring loop writes the coordinates saved from
  \<open>selected_shapes[0]\<close> into every selected shape.
\<close>

theorem rejected_resize_overwrites_others:
  "on_click one_rect_canvas 300 300 = Some second_corner_canvas \<and>
   on_click second_corner_canvas 400 400 = Some two_rect_canvas \<and>
   select_all two_rect_canvas = both_selected_canvas \<and>
   on_click both_selected_canvas 200 200 = Some both_resizing_canvas \<and>
   selected_shapes both_resizing_canvas = [0, 1] \<and>
   resize_handle both_resizing_canvas = Some ''se'' \<and>
   stored_corners both_resizing_canvas 0 = (Some 100, Some 100, Some 200, Some 200) \<and>
   stored_corners both_resizing_canvas 1 = (Some 300, Some 300, Some 400, Some 400) \<and>
   get_snap_point both_resizing_canvas 105 130 = Some (105, 130) \<and>
   \<bar>105 - 100\<bar> < MIN_SIZE \<and>
   resize_shape both_resizing_canvas 105 130 = Some both_rejected_canvas \<and>
   on_drag both_resizing_canvas 105 130 =
     Some (both_rejected_canvas\<lparr>last_x := Some 105, last_y := Some 130\<rparr>) \<and>
   stored_corners both_rejected_canvas 0 = (Some 100, Some 100, Some 200, Some 200) \<and>
   stored_corners both_rejected_canvas 1 = (Some 100, Some 100, Some 200, Some 200) \<and>
   stored_corners both_rejected_canvas 1 \<noteq> stored_corners both_resizing_canvas 1"
  by (simp add: two_click1 two_click2 two_select_all both_press_handle snap_both_near
      both_rejected both_drag stored_corners_def both_resizing_fields(1-9) rect_AB_attrs
      MIN_SIZE_def both_rejected_canvas_def)

section \<open>The snap engine\<close>

subsection \<open>The search loop returns a nearest candidate\<close>

lemma closest_loop_Cons:
  "closest_loop x y (pt # rest) closest_point min_distance =
     (if (case min_distance of None \<Rightarrow> True | Some m \<Rightarrow> pointer_distance x y pt < m) \<and>
         pointer_distance x y pt \<le> 10
      then closest_loop x y rest (Some pt) (Some (pointer_distance x y pt))
      else closest_loop x y rest closest_point min_distance)"
  by (cases min_distance) (simp_all add: pointer_distance_def Let_def)

lemma closest_loop_from_some:
  assumes "pointer_distance x y p0 \<le> 10"
  shows "\<exists>r. closest_loop x y ps (Some p0) (Some (pointer_distance x y p0)) = Some r \<and>
             r \<in> insert p0 (set ps) \<and>
             pointer_distance x y r \<le> pointer_distance x y p0 \<and>
             (\<forall>q \<in> set ps. pointer_distance x y r \<le> pointer_distance x y q)"
  using assms
proof (induction ps arbitrary: p0)
  case Nil
  then show ?case by simp
next
  case (Cons q ps)
  show ?case
  proof (cases "pointer_distance x y q < pointer_distance x y p0 \<and> pointer_distance x y q \<le> 10")
    case True
    then have "pointer_distance x y q \<le> 10" by simp
    from Cons.IH [OF this] obtain r where
      r: "closest_loop x y ps (Some q) (Some (pointer_distance x y q)) = Some r"
         "r \<in> insert q (set ps)"
         "pointer_distance x y r \<le> pointer_distance x y q"
         "\<forall>q' \<in> set ps. pointer_distance x y r \<le> pointer_distance x y q'"
      by blast
    have "closest_loop x y (q # ps) (Some p0) (Some (pointer_distance x y p0)) = Some r"
      using True r(1) by (simp add: closest_loop_Cons del: closest_loop.simps)
    with r True show ?thesis by auto
  next
    case False
    from Cons.IH [OF Cons.prems] obtain r where
      r: "closest_loop x y ps (Some p0) (Some (pointer_distance x y p0)) = Some r"
         "r \<in> insert p0 (set ps)"
         "pointer_distance x y r \<le> pointer_distance x y p0"
         "\<forall>q' \<in> set ps. pointer_distance x y r \<le> pointer_distance x y q'"
      by blast
    from False have cond:
      "(pointer_distance x y q < pointer_distance x y p0 \<and> pointer_distance x y q \<le> 10) = False"
      by simp
    have "closest_loop x y (q # ps) (Some p0) (Some (pointer_distance x y p0)) = Some r"
      using r(1) by (simp add: closest_loop_Cons cond del: closest_loop.simps)
    moreover have "pointer_distance x y r \<le> pointer_distance x y q"
      using False r(3) Cons.prems by linarith
    ultimately show ?thesis using r by auto
  qed
qed

lemma closest_loop_from_none:
  "if \<exists>q \<in> set ps. pointer_distance x y q \<le> 10
   then \<exists>r \<in> set ps. closest_loop x y ps None None = Some r \<and>
          pointer_distance x y r \<le> 10 \<and>
          (\<forall>q \<in> set ps. pointer_distance x y r \<le> pointer_distance x y q)
   else closest_loop x y ps None None = None"
proof (induction ps)
  case Nil
  then show ?case by simp
next
  case (Cons q ps)
  show ?case
  proof (cases "pointer_distance x y q \<le> 10")
    case True
    from closest_loop_from_some [OF True, of ps] obtain r where
      r: "closest_loop x y ps (Some q) (Some (pointer_distance x y q)) = Some r"
         "r \<in> insert q (set ps)"
         "pointer_distance x y r \<le> pointer_distance x y q"
         "\<forall>q' \<in> set ps. pointer_distance x y r \<le> pointer_distance x y q'"
      by blast
    have "closest_loop x y (q # ps) None None = Some r"
      using True r(1) by (simp add: closest_loop_Cons del: closest_loop.simps)
    moreover have "pointer_distance x y r \<le> 10" using r(3) True by linarith
    ultimately show ?thesis using True r by auto
  next
    case False
    have step: "closest_loop x y (q # ps) None None = closest_loop x y ps None None"
      using False by (simp add: closest_loop_Cons del: closest_loop.simps)
    show ?thesis
    proof (cases "\<exists>q' \<in> set ps. pointer_distance x y q' \<le> 10")
      case True
      with Cons.IH obtain r where
        r: "r \<in> set ps" "closest_loop x y ps None None = Some r" "pointer_distance x y r \<le> 10"
           "\<forall>q' \<in> set ps. pointer_distance x y r \<le> pointer_distance x y q'"
        by auto
      moreover have "pointer_distance x y r \<le> pointer_distance x y q" using r(3) False by linarith
      ultimately show ?thesis using True step by auto
    next
      case none: False
      with Cons.IH have "closest_loop x y ps None None = None" by simp
      with none False step show ?thesis by simp
    qed
  qed
qed

text \<open>What \<open>get_snap_point\<close> returns, given the candidate list \<open>snap_points\<close> collects:
  the raw position when snapping is off; the exception when collecting the candidates
  raises; otherwise a candidate of minimum distance when one is within 10 pixels, and the
  raw position when none is.\<close>

lemma get_snap_point_disabled: "\<not> snap_enabled c \<Longrightarrow> get_snap_point c x y = Some (x, y)"
  by (simp add: get_snap_point_def)

lemma get_snap_point_raises:
  "snap_enabled c \<Longrightarrow> snap_points c = None \<Longrightarrow> get_snap_point c x y = None"
  by (simp add: get_snap_point_def)

lemma get_snap_point_of_candidates:
  assumes en: "snap_enabled c" and cands: "snap_points c = Some cands"
  shows "if \<exists>p \<in> set cands. pointer_distance x y p \<le> 10
      then \<exists>p \<in> set cands. get_snap_point c x y = Some p \<and> pointer_distance x y p \<le> 10 \<and>
             (\<forall>q \<in> set cands. pointer_distance x y p \<le> pointer_distance x y q)
      else get_snap_point c x y = Some (x, y)"
proof -
  have res: "get_snap_point c x y =
      Some (case closest_loop x y cands None None of None \<Rightarrow> (x, y) | Some p \<Rightarrow> p)"
    using en by (simp add: get_snap_point_def cands)
  show ?thesis
  proof (cases "\<exists>p \<in> set cands. pointer_distance x y p \<le> 10")
    case True
    with closest_loop_from_none [of cands x y] obtain r where
      "r \<in> set cands" "closest_loop x y cands None None = Some r" "pointer_distance x y r \<le> 10"
      "\<forall>q \<in> set cands. pointer_distance x y r \<le> pointer_distance x y q"
      by auto
    with True res show ?thesis by auto
  next
    case False
    with closest_loop_from_none [of cands x y] have "closest_loop x y cands None None = None"
      by simp
    with False res show ?thesis by simp
  qed
qed

subsection \<open>The scenario of the specification\<close>

lemma Line_init_attrs:
  "s_x1 (Line_init x1 y1 x2 y2 c w st) = Some x1"
  "s_y1 (Line_init x1 y1 x2 y2 c w st) = Some y1"
  "s_x2 (Line_init x1 y1 x2 y2 c w st) = Some x2"
  "s_y2 (Line_init x1 y1 x2 y2 c w st) = Some y2"
  "s_points (Line_init x1 y1 x2 y2 c w st) = [(x1, y1), (x2, y2)]"
  "s_class (Line_init x1 y1 x2 y2 c w st) = Line"
  by (simp_all add: Line_init_def Shape_init_def)

lemma line_canvas_fields:
  "shapes line_canvas = [0]" "heap line_canvas 0 = Line_init 100 300 300 300 ''black'' 1 None"
  "snap_enabled line_canvas" "snap_endpoint line_canvas" "snap_midpoint line_canvas"
  "snap_intersection line_canvas" "selected_shapes line_canvas = []" "mode line_canvas = ''line''"
  by (simp_all add: line_canvas_def DrawingCanvas_init_def)

lemma snap_points_line_canvas: "snap_points line_canvas = Some [(100, 300), (300, 300), (200, 300)]"
  by (simp add: snap_points_def line_canvas_fields shape_snap_points_def Line_init_attrs)

lemma snap_near_endpoint: "get_snap_point line_canvas 98 302 = Some (100, 300)"
  by (simp add: get_snap_point_def line_canvas_fields snap_points_line_canvas sqrt_le_10)

lemma snap_far_from_line: "get_snap_point line_canvas 120 320 = Some (120, 320)"
  by (simp add: get_snap_point_def line_canvas_fields snap_points_line_canvas sqrt_le_10)

subsection \<open>An intersection as snap target\<close>

lemma cross_started_fields: "snap_enabled cross_started_canvas" "selected_shapes cross_started_canvas = []"
  "mode cross_started_canvas = ''line''" "current_points cross_started_canvas = [(150, 100)]"
  by (simp_all add: cross_started_canvas_def line_canvas_fields)

lemma line_canvas_points: "current_points line_canvas = []"
  by (simp add: line_canvas_def DrawingCanvas_init_def)

lemma cross_click1: "on_click line_canvas 150 100 = Some cross_started_canvas"
  by (simp add: on_click_def get_snap_point_def line_canvas_fields snap_points_line_canvas sqrt_le_10
      cross_started_canvas_def line_canvas_points)

lemma snap_points_cross_started: "snap_points cross_started_canvas = Some [(100, 300), (300, 300), (200, 300)]"
  by (simp add: snap_points_def cross_started_canvas_def line_canvas_fields shape_snap_points_def Line_init_attrs)

lemma snap_cross_started_far: "get_snap_point cross_started_canvas 150 400 = Some (150, 400)"
  by (simp add: get_snap_point_def cross_started_fields snap_points_cross_started sqrt_le_10)

lemma cross_click2: "on_click cross_started_canvas 150 400 = Some cross_canvas"
  by (simp add: on_click_def snap_cross_started_far cross_started_fields)
     (simp add: cross_started_canvas_def line_canvas_def DrawingCanvas_init_def
      commit_shape_def new_object_def cross_canvas_def numeral_2_eq_2)

lemma cross_fields:
  "shapes cross_canvas = [0, 1]" "snap_enabled cross_canvas" "snap_endpoint cross_canvas"
  "snap_midpoint cross_canvas" "snap_intersection cross_canvas"
  "heap cross_canvas 0 = Line_init 100 300 300 300 ''black'' 1 None"
  "heap cross_canvas 1 = Line_init 150 100 150 400 ''black'' 1 None"
  "heap cross_canvas (Suc 0) = Line_init 150 100 150 400 ''black'' 1 None"
  by (simp_all add: cross_canvas_def line_canvas_def DrawingCanvas_init_def)

lemma lines_cross:
  "get_intersection_points (Line_init 100 300 300 300 ''black'' 1 None)
     (Line_init 150 100 150 400 ''black'' 1 None) = Some [(150, 300)]"
  by (simp add: get_intersection_points_def get_shape_lines_def Line_init_attrs
      get_line_line_intersection_def Let_def)

lemma snap_points_cross:
  "snap_points cross_canvas =
     Some [(100, 300), (300, 300), (200, 300), (150, 100), (150, 400), (150, 250), (150, 300)]"
  by (simp add: snap_points_def cross_fields shape_snap_points_def Line_init_attrs lines_cross)

lemma snap_at_crossing: "get_snap_point cross_canvas 152 298 = Some (150, 300)"
  by (simp add: get_snap_point_def cross_fields snap_points_cross sqrt_le_10)

subsection \<open>A line and a rectangle moved together\<close>

text \<open>\<open>move_shape\<close> chooses its loop by the class of the first selected shape and runs it
  over the whole selection: with a line first, the rectangle gets the two points of a line.
  The next \<open>get_snap_point\<close> reads four points of it in \<open>get_shape_lines\<close>.\<close>

lemma mixed_set_mode: "set_mode line_canvas ''rectangle'' = mixed_mode_canvas"
  by (simp add: set_mode_def mixed_mode_canvas_def line_canvas_def DrawingCanvas_init_def)

lemma snap_points_mixed_mode: "snap_points mixed_mode_canvas = Some [(100, 300), (300, 300), (200, 300)]"
  by (simp add: snap_points_def mixed_mode_canvas_def line_canvas_fields shape_snap_points_def Line_init_attrs)

lemma mixed_mode_fields: "snap_enabled mixed_mode_canvas" "selected_shapes mixed_mode_canvas = []"
  "mode mixed_mode_canvas = ''rectangle''" "current_points mixed_mode_canvas = []"
  by (simp_all add: mixed_mode_canvas_def line_canvas_def DrawingCanvas_init_def)

lemma mixed_click1: "on_click mixed_mode_canvas 100 100 = Some mixed_corner_canvas"
  by (simp add: on_click_def get_snap_point_def mixed_mode_fields snap_points_mixed_mode sqrt_le_10
      mixed_corner_canvas_def)

lemma snap_points_mixed_corner: "snap_points mixed_corner_canvas = snap_points mixed_mode_canvas"
  by (simp add: snap_points_def mixed_corner_canvas_def)

lemma mixed_corner_fields: "snap_enabled mixed_corner_canvas" "selected_shapes mixed_corner_canvas = []"
  "mode mixed_corner_canvas = ''rectangle''" "current_points mixed_corner_canvas = [(100, 100)]"
  by (simp_all add: mixed_corner_canvas_def mixed_mode_fields)

lemma snap_mixed_corner_far: "get_snap_point mixed_corner_canvas 200 200 = Some (200, 200)"
  by (simp add: get_snap_point_def mixed_corner_fields snap_points_mixed_corner snap_points_mixed_mode sqrt_le_10)

lemma mixed_click2: "on_click mixed_corner_canvas 200 200 = Some mixed_canvas"
  by (simp add: on_click_def snap_mixed_corner_far mixed_corner_fields)
     (simp add: mixed_corner_canvas_def mixed_mode_canvas_def line_canvas_def DrawingCanvas_init_def
      commit_shape_def new_object_def mixed_canvas_def numeral_2_eq_2)

lemma mixed_select_all: "select_all mixed_canvas = mixed_selected_canvas"
  by (simp add: select_all_def mixed_canvas_def mixed_selected_canvas_def assign_each_def
      mixed_mode_canvas_def line_canvas_def DrawingCanvas_init_def Let_def fun_upd_twist)

lemma mixed_drag1: "on_drag mixed_selected_canvas 150 150 = Some mixed_drag_canvas"
  by (simp add: on_drag_def mixed_selected_canvas_def mixed_canvas_def mixed_mode_canvas_def
      line_canvas_def DrawingCanvas_init_def mixed_drag_canvas_def)

lemma mixed_drag2: "on_drag mixed_drag_canvas 160 170 = Some mixed_moved_canvas"
  by (simp add: on_drag_def mixed_drag_canvas_def mixed_selected_canvas_def mixed_canvas_def
      mixed_mode_canvas_def line_canvas_def DrawingCanvas_init_def mixed_moved_canvas_def
      move_shape_def move_by_class_def move_ends_def Line_init_attrs Rectangle_init_attrs Let_def
      fun_upd_twist)

lemma mixed_moved_fields:
  "shapes mixed_moved_canvas = [0, 1]" "snap_enabled mixed_moved_canvas"
  "snap_intersection mixed_moved_canvas"
  "s_class (heap mixed_moved_canvas 1) = Rectangle" "s_class (heap mixed_moved_canvas 0) = Line"
  "s_points (heap mixed_moved_canvas 1) = [(110, 120), (210, 220)]"
  "s_points (heap mixed_moved_canvas 0) = [(110, 320), (310, 320)]"
  "s_class (heap mixed_moved_canvas (Suc 0)) = Rectangle"
  "s_points (heap mixed_moved_canvas (Suc 0)) = [(110, 120), (210, 220)]"
  by (simp_all add: mixed_moved_canvas_def mixed_drag_canvas_def mixed_selected_canvas_def
      mixed_canvas_def mixed_mode_canvas_def line_canvas_def DrawingCanvas_init_def
      Line_init_attrs Rectangle_init_attrs)

lemma mixed_lines_raise: "get_shape_lines (heap mixed_moved_canvas 1) = None"
  by (simp add: get_shape_lines_def mixed_moved_fields)

lemma mixed_intersection_raises:
  "get_intersection_points (heap mixed_moved_canvas 0) (heap mixed_moved_canvas 1) = None"
  by (simp add: get_intersection_points_def mixed_moved_fields mixed_lines_raise get_shape_lines_def)

lemma mixed_pairs_raise: "pair_intersections (map (heap mixed_moved_canvas) (shapes mixed_moved_canvas)) = None"
  using mixed_intersection_raises by (simp add: mixed_moved_fields(1))

lemma mixed_snap_raises: "get_snap_point mixed_moved_canvas x y = None"
  using mixed_pairs_raise
  by (simp add: get_snap_point_def snap_points_def mixed_moved_fields(2,3) split: bind_splits)

lemma mixed_lines_raise_Suc: "get_shape_lines (heap mixed_moved_canvas (Suc 0)) = None"
  using mixed_lines_raise by simp

lemma mixed_candidates_raise: "snap_points mixed_moved_canvas = None"
  using mixed_pairs_raise by (simp add: snap_points_def mixed_moved_fields(3) split: bind_splits)

text \<open>
  Claim C7. For every shape collection and raw pointer position with snapping enabled,
  \<open>get_snap_point\<close> returns the snap candidate of minimum distance when that distance is
  at most 10 pixels, and the raw position otherwise. The program does so whenever it gets
  through collecting the candidates (lemma \<open>get_snap_point_of_candidates\<close>), as in the
  scenario of the specification and at the crossing of two lines; but there are shape
  collections, reached with pointer events alone, on which it returns nothing. On the canvas
  with the line \<open>(100, 300)-(300, 300)\<close> a rectangle \<open>(100, 100)-(200, 200)\<close> is drawn,
  Ctrl+A selects both, and the selection is dragged from \<open>(150, 150)\<close> to \<open>(160, 170)\<close>.
  The move leaves the rectangle with two points, \<open>get_shape_lines\<close> raises \<open>IndexError\<close>
  on it, and so does \<open>get_snap_point\<close> at every pointer position, with snapping enabled.
\<close>

theorem snap_raises_after_mixed_move:
  "set_mode line_canvas ''rectangle'' = mixed_mode_canvas \<and>
   on_click mixed_mode_canvas 100 100 = Some mixed_corner_canvas \<and>
   on_click mixed_corner_canvas 200 200 = Some mixed_canvas \<and>
   select_all mixed_canvas = mixed_selected_canvas \<and>
   on_drag mixed_selected_canvas 150 150 = Some mixed_drag_canvas \<and>
   on_drag mixed_drag_canvas 160 170 = Some mixed_moved_canvas \<and>
   snap_enabled mixed_moved_canvas \<and>
   shapes mixed_moved_canvas = [0, 1] \<and>
   s_class (heap mixed_moved_canvas 1) = Rectangle \<and>
   s_points (heap mixed_moved_canvas 1) = [(110, 120), (210, 220)] \<and>
   get_shape_lines (heap mixed_moved_canvas 1) = None \<and>
   snap_points mixed_moved_canvas = None \<and>
   (\<forall>x y. get_snap_point mixed_moved_canvas x y = None) \<and>
   get_snap_point line_canvas 98 302 = Some (100, 300) \<and>
   get_snap_point line_canvas 120 320 = Some (120, 320) \<and>
   get_snap_point cross_canvas 152 298 = Some (150, 300)"
  by (simp add: mixed_set_mode mixed_click1 mixed_click2 mixed_select_all mixed_drag1 mixed_drag2
      mixed_moved_fields mixed_lines_raise_Suc mixed_candidates_raise mixed_snap_raises
      snap_near_endpoint snap_far_from_line snap_at_crossing)

section \<open>Selection and collection\<close>

text \<open>The operations that remove a shape from both lists.\<close>

lemma delete_selected_clears_selection:
  assumes "delete_selected c = Some c'" and "set (selected_shapes c) \<subseteq> set (shapes c)"
  shows "set (selected_shapes c') \<subseteq> set (shapes c')"
  using assms by (auto simp: delete_selected_def Let_def split: if_splits bind_splits)

lemma remove_annotation_from_both:
  assumes "set (selected_annotations st) \<subseteq> set (annotations st)" and "distinct (selected_annotations st)"
  shows "set (selected_annotations (remove_annotation st a)) \<subseteq> set (annotations (remove_annotation st a))"
proof (cases "a \<in> set (annotations st)")
  case False
  with assms show ?thesis by (simp add: remove_annotation_def)
next
  case True
  have "b \<in> set (remove1 a (annotations st))"
    if "b \<in> set (remove1 a (selected_annotations st))" for b
  proof -
    from that assms(2) have "b \<noteq> a" and "b \<in> set (selected_annotations st)" by auto
    with assms(1) show ?thesis by (auto simp: in_set_remove1)
  qed
  then show ?thesis by (auto simp: remove_annotation_eq [OF True])
qed

text \<open>The events of the scenario, run on the model.\<close>

lemma line_click1: "on_click DrawingCanvas_init 100 300 = Some line_started_canvas"
  by (simp add: on_click_def DrawingCanvas_init_def get_snap_point_def snap_points_def
      line_started_canvas_def)

lemma line_click2: "on_click line_started_canvas 300 300 = Some line_canvas"
  by (simp add: on_click_def DrawingCanvas_init_def get_snap_point_def snap_points_def
      line_started_canvas_def commit_shape_def new_object_def line_canvas_def)

lemma line_select: "on_select line_canvas 200 300 = Some line_selected_canvas"
proof -
  have "selected_endpoint line_canvas = None" by (simp add: line_canvas_def DrawingCanvas_init_def)
  then have "line_canvas\<lparr>selected_endpoint := None\<rparr> = line_canvas" by simp
  then show ?thesis
    by (simp add: on_select_def line_canvas_fields Line_init_attrs distance_to_line_def Let_def
        line_selected_canvas_def)
qed

lemma line_selected_fields:
  "shapes line_selected_canvas = [0]" "selected_shapes line_selected_canvas = [0]"
  "undo_stack line_selected_canvas = [Op_add_shape 0]" "redo_stack line_selected_canvas = []"
  by (simp_all add: line_selected_canvas_def line_canvas_def DrawingCanvas_init_def)

lemma line_undo: "undo line_selected_canvas = Some undone_canvas"
  by (simp add: undo_def line_selected_fields list_remove_def undone_canvas_def Let_def)

lemma undone_fields:
  "shapes undone_canvas = []" "selected_shapes undone_canvas = [0]"
  by (simp_all add: undone_canvas_def line_selected_fields)

lemma undone_delete: "delete_selected undone_canvas = None"
  by (simp add: delete_selected_def undone_fields)

lemma line_delete: "delete_selected line_selected_canvas = Some deleted_canvas"
  by (simp add: delete_selected_def remove_present_def deleted_canvas_def Let_def
      line_selected_canvas_def line_canvas_def DrawingCanvas_init_def)

lemma deleted_undo: "undo deleted_canvas = Some restored_canvas"
  by (simp add: undo_def deleted_canvas_def restored_canvas_def restore_shapes_def Let_def
      line_canvas_def DrawingCanvas_init_def)

lemma restored_select: "on_select restored_canvas 200 300 = Some (restored_canvas\<lparr>selected_shapes := [0]\<rparr>)"
  by (simp add: on_select_def restored_canvas_def line_canvas_def DrawingCanvas_init_def
      Line_init_attrs distance_to_line_def Let_def)

lemma restored_redo: "redo (restored_canvas\<lparr>selected_shapes := [0]\<rparr>) = Some redone_canvas"
  by (simp add: redo_def restored_canvas_def redone_canvas_def deleted_canvas_def remove_present_def
      Let_def line_canvas_def DrawingCanvas_init_def)

lemma redone_fields: "shapes redone_canvas = []" "selected_shapes redone_canvas = [0]"
  by (simp_all add: redone_canvas_def deleted_canvas_def)

text \<open>
  Claim C4: the selected shapes are a subset of the shape collection at all times, since
  every operation that removes a shape from the collection also removes it from the
  selection. \<open>delete_selected\<close> and \<open>remove_annotation\<close> do; \<open>undo\<close> of an \<open>add\<close> and
  \<open>redo\<close> of a \<open>delete\<close> remove the shape from \<open>self.shapes\<close> and leave
  \<open>self.selected_shapes\<close> as it is. Draw a line, select it, undo: the line is selected
  and no longer in the collection, and \<open>delete_selected\<close> then raises \<open>ValueError\<close>
  (\<open>self.shapes.index(shape)\<close>).
\<close>

theorem undo_add_keeps_selection:
  "on_click DrawingCanvas_init 100 300 = Some line_started_canvas \<and>
   on_click line_started_canvas 300 300 = Some line_canvas \<and>
   on_select line_canvas 200 300 = Some line_selected_canvas \<and>
   undo line_selected_canvas = Some undone_canvas \<and>
   shapes undone_canvas = [] \<and>
   selected_shapes undone_canvas = [0] \<and>
   \<not> set (selected_shapes undone_canvas) \<subseteq> set (shapes undone_canvas) \<and>
   delete_selected undone_canvas = None"
  by (simp add: line_click1 line_click2 line_select line_undo undone_fields undone_delete)


section \<open>Undo entries of the edits\<close>

subsection \<open>Edits that push one entry and clear the redo stack\<close>

lemma commit_shape_pushes_one:
  "undo_stack (commit_shape c sh) = undo_stack c @ [Op_add_shape (next_ref c)] \<and>
   redo_stack (commit_shape c sh) = []"
  by (simp add: commit_shape_def new_object_def)

lemma on_click_commit_pushes_one:
  assumes "mode c \<in> {''line'', ''rectangle'', ''circle''}" and "current_points c \<noteq> []"
    and "selected_shapes c = []" and "on_click c x y = Some c'"
  shows "undo_stack c' = undo_stack c @ [Op_add_shape (next_ref c)] \<and> redo_stack c' = []"
  using assms
  by (auto simp: on_click_def commit_shape_pushes_one split: bind_splits prod.splits)

lemma on_right_click_pushes_one:
  assumes "mode c = ''polygon''" and "3 \<le> length (current_points c)"
  shows "undo_stack (on_right_click c) = undo_stack c @ [Op_add_shape (next_ref c)] \<and>
         redo_stack (on_right_click c) = []"
proof -
  from assms(2) have "current_points c \<noteq> []" by auto
  with assms show ?thesis
    by (simp add: on_right_click_def complete_shape_def commit_shape_pushes_one Let_def)
qed

lemma delete_selected_pushes_one:
  assumes "selected_shapes c \<noteq> []" and "delete_selected c = Some c'"
  shows "\<exists>indices. undo_stack c' = undo_stack c @ [Op_delete_shapes (selected_shapes c) indices] \<and>
           redo_stack c' = [] \<and> selected_shapes c' = []"
  using assms by (auto simp: delete_selected_def Let_def split: bind_splits)

lemma property_change_pushes_one:
  "undo_stack (set_color c v) = undo_stack c @ [Op_change_property ''current_color'' (StrValue (current_color c)) (StrValue v)]"
  "redo_stack (set_color c v) = []"
  "undo_stack (set_width c w) = undo_stack c @ [Op_change_property ''current_width'' (IntValue (current_width c)) (IntValue w)]"
  "redo_stack (set_width c w) = []"
  "undo_stack (set_style c d) = undo_stack c @ [Op_change_property ''current_style'' (StyleValue (current_style c)) (StyleValue d)]"
  "redo_stack (set_style c d) = []"
  by (simp_all add: set_color_def set_width_def set_style_def push_property_change_def Let_def)

subsection \<open>Edits that push nothing\<close>

lemma resize_shape_keeps_stacks:
  assumes "resize_shape c x y = Some c'"
  shows "undo_stack c' = undo_stack c \<and> redo_stack c' = redo_stack c"
  using assms
  by (auto simp: resize_shape_def Let_def split: if_splits bind_splits)

lemma move_shape_keeps_stacks:
  assumes "move_shape c dx dy = Some c'"
  shows "undo_stack c' = undo_stack c \<and> redo_stack c' = redo_stack c"
  using assms
  by (auto simp: move_shape_def split: if_splits bind_splits)

lemma drag_endpoint_keeps_stacks:
  assumes "drag_endpoint c x y = Some c'"
  shows "undo_stack c' = undo_stack c \<and> redo_stack c' = redo_stack c"
  using assms
  by (auto simp: drag_endpoint_def Let_def split: if_splits bind_splits)

lemma on_drag_keeps_stacks:
  assumes "on_drag c x y = Some c'"
  shows "undo_stack c' = undo_stack c \<and> redo_stack c' = redo_stack c"
proof (cases "selected_shapes c = []")
  case True
  with assms show ?thesis by (simp add: on_drag_def)
next
  case False
  with assms obtain c1 where
    c1: "(case (last_x c, last_y c) of
           (Some lx, Some ly) \<Rightarrow>
             (let dx = x - lx; dy = y - ly in
              if is_resizing c \<and> s_class (heap c (hd (selected_shapes c))) = Rectangle
              then resize_shape c x y
              else if s_class (heap c (hd (selected_shapes c))) = Line \<and> selected_endpoint c \<noteq> None
              then drag_endpoint c x y
              else move_shape c dx dy)
         | _ \<Rightarrow> Some c) = Some c1"
    and c': "c' = c1\<lparr>last_x := Some x, last_y := Some y\<rparr>"
    by (auto simp: on_drag_def split: bind_splits)
  from c1 have "undo_stack c1 = undo_stack c \<and> redo_stack c1 = redo_stack c"
    by (auto simp: Let_def split: option.splits if_splits
        dest: resize_shape_keeps_stacks drag_endpoint_keeps_stacks move_shape_keeps_stacks)
  with c' show ?thesis by simp
qed

lemma duplicate_loop_keeps_stacks:
  assumes "duplicate_loop rs c ns = Some (c', ns')"
  shows "undo_stack c' = undo_stack c \<and> redo_stack c' = redo_stack c"
  using assms
proof (induction rs arbitrary: c ns)
  case Nil
  then show ?case by simp
next
  case (Cons r rs)
  then show ?case
    by (auto simp: new_object_def split: option.splits)
qed

lemma duplicate_selected_keeps_undo:
  assumes "duplicate_selected c = Some c'"
  shows "undo_stack c' = undo_stack c"
proof (cases "selected_shapes c = []")
  case True
  with assms show ?thesis by (simp add: duplicate_selected_def)
next
  case False
  with assms obtain c2 ns where "duplicate_loop (selected_shapes c) (push_state c) [] = Some (c2, ns)"
    and "undo_stack c' = undo_stack c2"
    by (auto simp: duplicate_selected_def Let_def split: bind_splits)
  with duplicate_loop_keeps_stacks [of "selected_shapes c" "push_state c" "[]" c2 ns]
  show ?thesis by (simp add: push_state_def)
qed


lemmas canvas_defs = rect_selected_canvas_def one_rect_canvas_def rect_mode_canvas_def set_mode_def
  DrawingCanvas_init_def

lemma duplicate_scenario: "duplicate_selected rect_selected_canvas = Some duplicated_canvas"
  by (simp add: duplicate_selected_def duplicated_canvas_def canvas_defs push_state_def
      duplicate_of_def Rectangle_init_attrs Rectangle_init_style new_object_def remove_present_def Let_def
      numeral_2_eq_2)

lemma drag_start_scenario: "on_drag rect_selected_canvas 150 150 = Some drag_started_canvas"
  by (simp add: on_drag_def drag_started_canvas_def canvas_defs)

lemma move_scenario: "on_drag drag_started_canvas 160 170 = Some moved_canvas"
  by (simp add: on_drag_def drag_started_canvas_def moved_canvas_def canvas_defs move_shape_def
      move_by_class_def move_corners_def Rectangle_init_attrs Let_def)

lemma scenario_stacks:
  "undo_stack rect_selected_canvas = [Op_add_shape 0]"
  "undo_stack duplicated_canvas = [Op_add_shape 0]"
  "undo_stack moved_canvas = [Op_add_shape 0]"
  "undo_stack resized_canvas = [Op_add_shape 0]"
  "shapes duplicated_canvas = [0, 1]"
  by (simp_all add: duplicated_canvas_def moved_canvas_def drag_started_canvas_def resized_canvas_def
      resizing_canvas_def canvas_defs)

lemma moved_corners: "stored_corners moved_canvas 0 = (Some 110, Some 120, Some 210, Some 220)"
  by (simp add: stored_corners_def moved_canvas_def)

text \<open>
  Claim C1: every committed edit pushes exactly one entry onto the undo stack and clears
  the redo stack. The two-point commit, the polygon completion, the batch delete and the
  property setters do (lemmas above). Duplication, drag-move and handle resize push
  nothing: after Ctrl+D on the selected rectangle the collection holds the copy and the
  undo stack is still the one \<open>add\<close> entry of the original; after a drag that moved the
  rectangle by \<open>(10, 20)\<close>, and after a drag of its \<open>se\<close> handle, likewise.
\<close>

theorem edits_without_undo_entry:
  "duplicate_selected rect_selected_canvas = Some duplicated_canvas \<and>
   shapes duplicated_canvas = [0, 1] \<and>
   undo_stack duplicated_canvas = undo_stack rect_selected_canvas \<and>
   on_drag rect_selected_canvas 150 150 = Some drag_started_canvas \<and>
   on_drag drag_started_canvas 160 170 = Some moved_canvas \<and>
   stored_corners moved_canvas 0 = (Some 110, Some 120, Some 210, Some 220) \<and>
   undo_stack moved_canvas = undo_stack rect_selected_canvas \<and>
   on_drag resizing_canvas 50 50 = Some (resized_canvas\<lparr>last_x := Some 50, last_y := Some 50\<rparr>) \<and>
   undo_stack resized_canvas = undo_stack rect_selected_canvas \<and>
   undo_stack rect_selected_canvas = [Op_add_shape 0]"
  by (simp add: duplicate_scenario drag_start_scenario move_scenario drag_scenario scenario_stacks
      moved_corners)

end
